theory Spec2Isabelle
  imports Complex_Main "HOL-Library.Sublist"
begin

section \<open>JavaScript strings and numbers\<close>

text \<open>
  A JavaScript string is modelled as a \<open>string\<close> holding its UTF-8 bytes. Substring
  search, prefix tests and splitting on an ASCII separator give the same answers on the
  UTF-8 bytes as on the UTF-16 code units of the source. Case mapping and white space are
  modelled on ASCII.
\<close>

definition js_includes :: "string \<Rightarrow> string \<Rightarrow> bool" where
  \<comment> \<open>\<open>s.includes(p)\<close>\<close>
  "js_includes s p = sublist p s"

definition startsWith :: "string \<Rightarrow> string \<Rightarrow> bool" where
  \<comment> \<open>\<open>s.startsWith(p)\<close>\<close>
  "startsWith s p = prefix p s"

definition substring :: "string \<Rightarrow> nat \<Rightarrow> string" where
  \<comment> \<open>\<open>s.substring(n)\<close>\<close>
  "substring s n = drop n s"

definition lowerChar :: "char \<Rightarrow> char" where
  "lowerChar c =
     (let n = (of_char c :: nat) in if 65 \<le> n \<and> n \<le> 90 then char_of (n + 32) else c)"

definition toLowerCase :: "string \<Rightarrow> string" where
  "toLowerCase s = map lowerChar s"

definition isSpace :: "char \<Rightarrow> bool" where
  \<comment> \<open>the ASCII characters of the regular expression class \<open>\\s\<close>, which \<open>trim\<close> strips\<close>
  "isSpace c = (let n = (of_char c :: nat) in n = 32 \<or> (9 \<le> n \<and> n \<le> 13))"

definition trim :: "string \<Rightarrow> string" where
  "trim s = rev (dropWhile isSpace (rev (dropWhile isSpace s)))"

function splitFrom :: "string \<Rightarrow> string \<Rightarrow> string \<Rightarrow> string list" where
  "splitFrom sep cur [] = [rev cur]"
| "splitFrom sep cur (c # cs) =
     (if sep \<noteq> [] \<and> prefix sep (c # cs)
      then rev cur # splitFrom sep [] (drop (length sep) (c # cs))
      else splitFrom sep (c # cur) cs)"
  by pat_completeness auto
termination
  by (relation "measure (\<lambda>(sep, cur, s). length s)") auto

definition split :: "string \<Rightarrow> string \<Rightarrow> string list" where
  \<comment> \<open>\<open>s.split(sep)\<close> for a string separator; an empty separator splits into characters\<close>
  "split s sep = (if sep = [] then map (\<lambda>c. [c]) s else splitFrom sep [] s)"

fun join :: "string list \<Rightarrow> string \<Rightarrow> string" where
  \<comment> \<open>\<open>xs.join(sep)\<close>\<close>
  "join [] sep = []"
| "join [x] sep = x"
| "join (x # y # ys) sep = x @ sep @ join (y # ys) sep"

definition newline :: string where
  "newline = [CHR 0x0A]"

definition sq :: string where
  \<comment> \<open>a single quote\<close>
  "sq = [CHR 0x27]"

definition dq :: string where
  \<comment> \<open>a double quote\<close>
  "dq = [CHR 0x22]"

definition upperChar :: "char \<Rightarrow> char" where
  "upperChar c =
     (let n = (of_char c :: nat) in if 97 \<le> n \<and> n \<le> 122 then char_of (n - 32) else c)"

definition toUpperCase :: "string \<Rightarrow> string" where
  "toUpperCase s = map upperChar s"

text \<open>
  A JavaScript number is a double: it is modelled as \<open>NaN\<close> or as the rational that a
  finite double denotes, the two zeros being one. The result of an arithmetic operation is
  the exact result rounded to the nearest double, a tie going to the even significand. The
  functions below never divide by zero: every division is guarded by a test of the divisor.
  A result beyond the largest double, which the source would turn into an infinity, is
  outside the model.
\<close>

datatype number = NaN | Num rat

function bitLength :: "int \<Rightarrow> int" where
  \<comment> \<open>the number of binary digits of a positive integer\<close>
  "bitLength n = (if n \<le> 0 then 0 else 1 + bitLength (n div 2))"
  by pat_completeness auto
termination
  by (relation "measure nat") auto

definition pow2 :: "int \<Rightarrow> rat" where
  "pow2 e = (if 0 \<le> e then 2 ^ nat e else 1 / 2 ^ nat (- e))"

definition exponentOf :: "rat \<Rightarrow> int" where
  \<comment> \<open>for a positive \<open>q\<close>, the exponent \<open>e\<close> with \<open>pow2 e \<le> q < pow2 (e + 1)\<close>\<close>
  "exponentOf q =
     (let (a, b) = quotient_of q; d = bitLength a - bitLength b
      in if pow2 d \<le> q then d else d - 1)"

definition roundHalfEven :: "rat \<Rightarrow> int" where
  "roundHalfEven x =
     (let f = \<lfloor>x\<rfloor>; r = x - of_int f
      in if r < 1 / 2 then f else if 1 / 2 < r then f + 1 else if even f then f else f + 1)"

definition nearestDouble :: "rat \<Rightarrow> rat" where
  \<comment> \<open>the double nearest to a rational: a significand of 53 binary digits, the exponent not
      below that of the smallest normal double\<close>
  "nearestDouble q =
     (if q = 0 then 0
      else
        (let e = max (exponentOf \<bar>q\<bar>) (- 1022); ulp = pow2 (e - 52)
         in sgn q * of_int (roundHalfEven (\<bar>q\<bar> / ulp)) * ulp))"

fun num_add :: "number \<Rightarrow> number \<Rightarrow> number" where
  "num_add (Num a) (Num b) = Num (nearestDouble (a + b))"
| "num_add _ _ = NaN"

fun num_gt :: "number \<Rightarrow> rat \<Rightarrow> bool" where
  \<comment> \<open>\<open>x > c\<close>: a comparison with \<open>NaN\<close> is false\<close>
  "num_gt (Num a) c = (c < a)"
| "num_gt NaN c = False"

definition Math_round :: "rat \<Rightarrow> rat" where
  \<comment> \<open>\<open>Math.round\<close>: the nearest integer, a half rounded up; the result of the library
      function is exact\<close>
  "Math_round x = of_int \<lfloor>x + 1 / 2\<rfloor>"

fun percentRounded :: "number \<Rightarrow> number \<Rightarrow> number" where
  \<comment> \<open>\<open>Math.round((covered / total) * 100)\<close>, evaluated only where \<open>total > 0\<close>\<close>
  "percentRounded (Num c) (Num t) = Num (Math_round (nearestDouble (nearestDouble (c / t) * 100)))"
| "percentRounded _ _ = NaN"

definition digitValue :: "char \<Rightarrow> nat option" where
  "digitValue c =
     (let n = (of_char c :: nat) in
      if 48 \<le> n \<and> n \<le> 57 then Some (n - 48)
      else if 97 \<le> n \<and> n \<le> 102 then Some (n - 87)
      else if 65 \<le> n \<and> n \<le> 70 then Some (n - 55)
      else None)"

definition isDigitIn :: "nat \<Rightarrow> char \<Rightarrow> bool" where
  "isDigitIn radix c = (case digitValue c of None \<Rightarrow> False | Some d \<Rightarrow> d < radix)"

definition digitsValue :: "nat \<Rightarrow> string \<Rightarrow> nat" where
  "digitsValue radix ds = foldl (\<lambda>acc c. acc * radix + (case digitValue c of None \<Rightarrow> 0 | Some d \<Rightarrow> d)) 0 ds"

definition parseDigits :: "nat \<Rightarrow> string \<Rightarrow> number" where
  \<comment> \<open>the number that the leading digits denote, as a double\<close>
  "parseDigits radix s =
     (let ds = takeWhile (isDigitIn radix) s in
      if ds = [] then NaN else Num (nearestDouble (of_nat (digitsValue radix ds))))"

definition parseUnsigned :: "string \<Rightarrow> number" where
  \<comment> \<open>without a radix argument a \<open>0x\<close> or \<open>0X\<close> prefix selects base 16\<close>
  "parseUnsigned s =
     (if prefix ''0x'' s \<or> prefix ''0X'' s then parseDigits 16 (drop 2 s) else parseDigits 10 s)"

fun num_neg :: "number \<Rightarrow> number" where
  "num_neg (Num a) = Num (- a)"
| "num_neg NaN = NaN"

definition parseInt :: "string \<Rightarrow> number" where
  \<comment> \<open>\<open>parseInt(s)\<close>: leading white space, an optional sign, then the longest run of digits;
      \<open>NaN\<close> when there is no digit\<close>
  "parseInt s =
     (case dropWhile isSpace s of
        [] \<Rightarrow> NaN
      | c # cs \<Rightarrow>
          if c = CHR ''-'' then num_neg (parseUnsigned cs)
          else if c = CHR ''+'' then parseUnsigned cs
          else parseUnsigned (c # cs))"

section \<open>Coverage analyzer\<close>

definition calculatePercentage :: "rat \<Rightarrow> rat \<Rightarrow> rat" where
  \<comment> \<open>\<open>CoverageAnalyzerService.calculatePercentage\<close>\<close>
  "calculatePercentage covered tot =
     (if tot = 0 then 0
      else nearestDouble
             (Math_round (nearestDouble (nearestDouble (nearestDouble (covered / tot) * 100) * 100)) /
              100))"

record lcovCounters =
  totalLines :: number
  coveredLines :: number
  totalFunctions :: number
  coveredFunctions :: number
  totalBranches :: number
  coveredBranches :: number

record overallCoverage =
  cov_lines :: number
  cov_functions :: number
  cov_branches :: number
  cov_statements :: number

definition lcovLine :: "lcovCounters \<Rightarrow> string \<Rightarrow> lcovCounters" where
  \<comment> \<open>the body of the inner loop of \<open>parseLcovCoverage\<close>; the \<open>SF:\<close> branch only sets the
      unused local \<open>fileName\<close>\<close>
  "lcovLine t line =
     (if startsWith line ''SF:'' then t
      else if startsWith line ''LF:'' then
        t\<lparr>totalLines := num_add (totalLines t) (parseInt (substring line 3))\<rparr>
      else if startsWith line ''LH:'' then
        t\<lparr>coveredLines := num_add (coveredLines t) (parseInt (substring line 3))\<rparr>
      else if startsWith line ''FNF:'' then
        t\<lparr>totalFunctions := num_add (totalFunctions t) (parseInt (substring line 4))\<rparr>
      else if startsWith line ''FNH:'' then
        t\<lparr>coveredFunctions := num_add (coveredFunctions t) (parseInt (substring line 4))\<rparr>
      else if startsWith line ''BRF:'' then
        t\<lparr>totalBranches := num_add (totalBranches t) (parseInt (substring line 4))\<rparr>
      else if startsWith line ''BRH:'' then
        t\<lparr>coveredBranches := num_add (coveredBranches t) (parseInt (substring line 4))\<rparr>
      else t)"

definition lcovSection :: "lcovCounters \<Rightarrow> string \<Rightarrow> lcovCounters" where
  "lcovSection t section' = foldl lcovLine t (split section' newline)"

definition lcovZero :: lcovCounters where
  "lcovZero = \<lparr>totalLines = Num 0, coveredLines = Num 0, totalFunctions = Num 0,
     coveredFunctions = Num 0, totalBranches = Num 0, coveredBranches = Num 0\<rparr>"

definition percentOrZero :: "number \<Rightarrow> number \<Rightarrow> number" where
  \<comment> \<open>\<open>total > 0 ? Math.round((covered / total) * 100) : 0\<close>\<close>
  "percentOrZero covered tot = (if num_gt tot 0 then percentRounded covered tot else Num 0)"

definition parseLcovCoverage :: "string \<Rightarrow> overallCoverage" where
  \<comment> \<open>\<open>CoverageAnalyzerService.parseLcovCoverage\<close>: the \<open>overall\<close> object of the result
      (its \<open>files\<close> object stays empty)\<close>
  "parseLcovCoverage lcovContent =
     (let t = foldl lcovSection lcovZero (split lcovContent ''end_of_record'');
          ls = percentOrZero (coveredLines t) (totalLines t)
      in \<lparr>cov_lines = ls,
          cov_functions = percentOrZero (coveredFunctions t) (totalFunctions t),
          cov_branches = percentOrZero (coveredBranches t) (totalBranches t),
          cov_statements = ls\<rparr>)"

definition lcovExample :: string where
  \<comment> \<open>the record of the repository's test \<open>should parse LCOV coverage data correctly\<close>\<close>
  "lcovExample = join [''SF:src/calculator.js'', ''FN:1,add'', ''FNF:1'', ''FNH:1'', ''LF:10'',
     ''LH:8'', ''BRF:4'', ''BRH:3'', ''end_of_record''] newline"

section \<open>TDD cycle validator\<close>

datatype TDDCycleState = RED | GREEN | REFACTOR

datatype violationType = no_failing_test | premature_implementation | skipped_refactor

record violation =
  v_type :: violationType
  v_description :: string
  v_suggestion :: string

record CommitPatternAnalysis =
  testCommits :: nat
  implementationCommits :: nat
  refactorCommits :: nat
  hasImplementationBeforeTests :: bool
  lacksTestCommits :: bool
  lacksRefactorCommits :: bool
  hasMultipleFeatureCommits :: bool

definition testKeywords :: "string list" where
  "testKeywords = [''test'', ''spec'', ''TDD'', ''failing test'', ''red'']"

definition implementationKeywords :: "string list" where
  "implementationKeywords = [''implement'', ''add'', ''feature'', ''fix'', ''green'']"

definition refactorKeywords :: "string list" where
  "refactorKeywords = [''refactor'', ''cleanup'', ''improve'', ''extract'', ''rename'']"

definition someKeyword :: "string list \<Rightarrow> string \<Rightarrow> bool" where
  \<comment> \<open>\<open>keywords.some(keyword => commit.includes(keyword))\<close>\<close>
  "someKeyword keywords commit = list_ex (\<lambda>keyword. js_includes commit keyword) keywords"

record commitCounters =
  cc_test :: nat
  cc_implementation :: nat
  cc_refactor :: nat
  cc_implBeforeTests :: bool

fun commitLoop :: "string option \<Rightarrow> string list \<Rightarrow> commitCounters \<Rightarrow> commitCounters" where
  \<comment> \<open>the \<open>for\<close> loop of \<open>analyzeCommitPatterns\<close>; the first argument is \<open>commits[i - 1]\<close>,
      absent at \<open>i = 0\<close>\<close>
  "commitLoop prev [] a = a"
| "commitLoop prev (c # cs) a =
     (let commit = toLowerCase c;
          isTest = someKeyword testKeywords commit;
          isImplementation = someKeyword implementationKeywords commit;
          isRefactor = someKeyword refactorKeywords commit;
          a1 = a\<lparr>cc_test := (if isTest then cc_test a + 1 else cc_test a),
                 cc_implementation :=
                   (if isImplementation then cc_implementation a + 1 else cc_implementation a),
                 cc_refactor := (if isRefactor then cc_refactor a + 1 else cc_refactor a)\<rparr>;
          a2 = (case prev of
                  None \<Rightarrow> a1
                | Some p \<Rightarrow>
                    if isImplementation \<and> \<not> someKeyword testKeywords (toLowerCase p)
                    then a1\<lparr>cc_implBeforeTests := True\<rparr> else a1)
      in commitLoop (Some c) cs a2)"

definition analyzeCommitPatterns :: "string list \<Rightarrow> CommitPatternAnalysis" where
  "analyzeCommitPatterns commits =
     (let a = commitLoop None commits
                \<lparr>cc_test = 0, cc_implementation = 0, cc_refactor = 0, cc_implBeforeTests = False\<rparr>
      in \<lparr>testCommits = cc_test a,
          implementationCommits = cc_implementation a,
          refactorCommits = cc_refactor a,
          hasImplementationBeforeTests = cc_implBeforeTests a,
          lacksTestCommits = (cc_test a = 0 \<and> length commits > 0),
          lacksRefactorCommits = (cc_refactor a = 0),
          hasMultipleFeatureCommits = (cc_implementation a > 2)\<rparr>)"

record projectProbe =
  \<comment> \<open>what one run of \<open>determineCurrentState\<close> observes of the project directory and of the
      quick test subprocess; each helper catches its own failures\<close>
  hasTestFiles :: bool
  quickPassed :: nat
  quickFailed :: nat
  needsRefactoring :: bool

definition determineCurrentState :: "projectProbe \<Rightarrow> TDDCycleState" where
  "determineCurrentState p =
     (if \<not> hasTestFiles p then RED
      else if quickFailed p > 0 then RED
      else if quickPassed p > 0 then (if needsRefactoring p then REFACTOR else GREEN)
      else RED)"

record TDDAnalysis =
  an_violations :: "violation list"
  an_suggestions :: "string list"
  an_score :: int

definition stateSuggestions :: "TDDCycleState \<Rightarrow> string list" where
  "stateSuggestions st =
     (case st of
        RED \<Rightarrow> [''Write minimal code to make the failing test pass'',
                ''Focus on functionality, not code quality yet'']
      | GREEN \<Rightarrow> [''Look for refactoring opportunities to improve code quality'',
                  ''Remove duplication and improve naming'',
                  ''Consider extracting methods or classes'']
      | REFACTOR \<Rightarrow> [''Make small, incremental improvements'',
                     ''Run tests frequently to ensure behavior is preserved'',
                     ''Commit refactoring changes separately''])"

definition analyzeTDDAdherence :: "projectProbe \<Rightarrow> string list \<Rightarrow> TDDAnalysis" where
  "analyzeTDDAdherence probe commits =
     (let commitAnalysis = analyzeCommitPatterns commits;
          (violations1, score1) =
            (if hasImplementationBeforeTests commitAnalysis
             then ([\<lparr>v_type = premature_implementation,
                      v_description = ''Implementation code was committed before corresponding tests'',
                      v_suggestion = ''Always write failing tests before implementing functionality''\<rparr>],
                   100 - 30)
             else ([], 100));
          (violations2, score2) =
            (if lacksTestCommits commitAnalysis
             then (violations1 @ [\<lparr>v_type = no_failing_test,
                      v_description = ''No test commits found in recent history'',
                      v_suggestion = ''Ensure you are writing tests as part of your development process''\<rparr>],
                   score1 - 25)
             else (violations1, score1));
          (violations3, score3) =
            (if lacksRefactorCommits commitAnalysis \<and> hasMultipleFeatureCommits commitAnalysis
             then (violations2 @ [\<lparr>v_type = skipped_refactor,
                      v_description = ''Multiple feature implementations without refactoring commits'',
                      v_suggestion = ''Include refactoring as a regular part of your TDD cycle''\<rparr>],
                   score2 - 20)
             else (violations2, score2));
          suggestions1 = stateSuggestions (determineCurrentState probe);
          suggestions2 =
            (if length violations3 = 0
             then suggestions1 @ [''Great job following TDD! Continue with small, incremental changes'']
             else suggestions1 @ [''Review TDD principles: Red-Green-Refactor cycle'',
                                  ''Consider using git commits to track TDD progress''])
      in \<lparr>an_violations = violations3, an_suggestions = suggestions2,
          an_score = max score3 0\<rparr>)"

record TDDCycleValidation =
  isValid :: bool
  currentState :: TDDCycleState
  violations :: "violation list"
  suggestions :: "string list"
  score :: int

definition commitsToAnalyze :: "string list \<Rightarrow> string list option \<Rightarrow> string list" where
  \<comment> \<open>\<open>gitHistory || await this.getRecentCommits(projectPath, timeWindow)\<close>: an array, even an
      empty one, is truthy\<close>
  "commitsToAnalyze recent gitHistory = (case gitHistory of Some h \<Rightarrow> h | None \<Rightarrow> recent)"

definition validateCycle ::
  "projectProbe \<Rightarrow> projectProbe \<Rightarrow> string list \<Rightarrow> string list option \<Rightarrow> string + TDDCycleValidation" where
  \<comment> \<open>\<open>TDDCycleValidatorService.validateCycle\<close>. \<open>recent\<close> is what \<open>getRecentCommits\<close> returns
      (the empty list when git fails); the two probes are the two runs of
      \<open>determineCurrentState\<close>. No step inside the \<open>try\<close> block raises for a list of strings,
      so the re-throwing \<open>catch\<close> branch is never taken and the result is always \<open>Inr\<close>.\<close>
  "validateCycle probe1 probe2 recent gitHistory =
     (let commits = commitsToAnalyze recent gitHistory;
          state = determineCurrentState probe1;
          analysis = analyzeTDDAdherence probe2 commits
      in Inr \<lparr>isValid = (length (an_violations analysis) = 0),
              currentState = state,
              violations = an_violations analysis,
              suggestions = an_suggestions analysis,
              score = an_score analysis\<rparr>)"

section \<open>Tool listing\<close>

record tool =
  \<comment> \<open>the name of a tool definition and the \<open>required\<close> list of its input schema\<close>
  tool_name :: string
  tool_required :: "string list"

definition TOOLS :: "tool list" where
  \<comment> \<open>the legacy tool definitions of \<open>handlers/tools.ts\<close>\<close>
  "TOOLS =
    [\<lparr>tool_name = ''generate_test_cases'',
       tool_required = [''requirements'', ''language'', ''framework'', ''testType'']\<rparr>,
     \<lparr>tool_name = ''implement_from_tests'', tool_required = [''testCode'', ''language'']\<rparr>,
     \<lparr>tool_name = ''run_tests'', tool_required = [''projectPath'', ''testFramework'']\<rparr>,
     \<lparr>tool_name = ''analyze_coverage'', tool_required = [''projectPath'', ''testCommand'']\<rparr>,
     \<lparr>tool_name = ''refactor_code'', tool_required = [''sourceCode'', ''refactorType'']\<rparr>,
     \<lparr>tool_name = ''validate_tdd_cycle'', tool_required = [''projectPath'']\<rparr>,
     \<lparr>tool_name = ''createFeature'',
       tool_required = [''name'', ''description'', ''acceptanceCriteria'']\<rparr>,
     \<lparr>tool_name = ''updateFeatureStatus'', tool_required = [''featureId'', ''status'']\<rparr>,
     \<lparr>tool_name = ''linkFeatureFiles'', tool_required = [''featureId'', ''filePaths'', ''fileType'']\<rparr>,
     \<lparr>tool_name = ''findSimilarFeatures'', tool_required = [''query'']\<rparr>,
     \<lparr>tool_name = ''createTDDSession'', tool_required = [''featureId'', ''developer'']\<rparr>,
     \<lparr>tool_name = ''updateTDDStage'', tool_required = [''sessionId'', ''stage'']\<rparr>,
     \<lparr>tool_name = ''registerTestMethod'',
       tool_required = [''featureId'', ''name'', ''filePath'', ''framework'']\<rparr>,
     \<lparr>tool_name = ''updateTestExecutionResult'', tool_required = [''methodId'', ''result'']\<rparr>,
     \<lparr>tool_name = ''updateTestMethodStatus'', tool_required = [''methodId'', ''status'']\<rparr>]"

definition toolsHandler_listTools :: "tool list" where
  "toolsHandler_listTools = TOOLS"

definition createTDDTool :: tool where
  "createTDDTool = \<lparr>tool_name = ''tdd'', tool_required = [''requirements'']\<rparr>"

definition createFeatureTool :: tool where
  "createFeatureTool = \<lparr>tool_name = ''feature'', tool_required = [''name'']\<rparr>"

definition createTrackingTool :: tool where
  "createTrackingTool = \<lparr>tool_name = ''tracking'', tool_required = []\<rparr>"

definition NewToolsHandler_listTools :: "tool list" where
  "NewToolsHandler_listTools = [createTDDTool, createFeatureTool, createTrackingTool]"

definition useNewTools :: "string option \<Rightarrow> bool" where
  \<comment> \<open>\<open>process.env.USE_NEW_TOOLS === 'true'\<close>; \<open>None\<close> is an unset variable\<close>
  "useNewTools USE_NEW_TOOLS = (USE_NEW_TOOLS = Some ''true'')"

definition serverListTools :: "string option \<Rightarrow> tool list" where
  \<comment> \<open>the handler that \<open>server.ts\<close> registers for \<open>tools/list\<close>\<close>
  "serverListTools USE_NEW_TOOLS =
     (if useNewTools USE_NEW_TOOLS then NewToolsHandler_listTools else toolsHandler_listTools)"

section \<open>Test frameworks\<close>

datatype SupportedLanguage = TYPESCRIPT | JAVASCRIPT | PYTHON | JAVA | CSHARP | GO | RUST | PHP

record frameworkConfig =
  \<comment> \<open>the fields of an entry of \<open>SUPPORTED_FRAMEWORKS\<close> that the services read\<close>
  fw_name :: string
  fw_language :: SupportedLanguage
  fw_run :: string
  fw_coverage :: "string option"

definition SUPPORTED_FRAMEWORKS :: "(string \<times> frameworkConfig) list" where
  \<comment> \<open>in the order of \<open>Object.entries\<close>\<close>
  "SUPPORTED_FRAMEWORKS =
    [(''jest'', \<lparr>fw_name = ''Jest'', fw_language = TYPESCRIPT, fw_run = ''jest'',
        fw_coverage = Some ''jest --coverage''\<rparr>),
     (''mocha'', \<lparr>fw_name = ''Mocha'', fw_language = TYPESCRIPT, fw_run = ''mocha'',
        fw_coverage = Some ''nyc mocha''\<rparr>),
     (''vitest'', \<lparr>fw_name = ''Vitest'', fw_language = TYPESCRIPT, fw_run = ''vitest run'',
        fw_coverage = Some ''vitest run --coverage''\<rparr>),
     (''pytest'', \<lparr>fw_name = ''pytest'', fw_language = PYTHON, fw_run = ''pytest'',
        fw_coverage = Some ''pytest --cov''\<rparr>),
     (''unittest'', \<lparr>fw_name = ''unittest'', fw_language = PYTHON,
        fw_run = ''python -m unittest discover'',
        fw_coverage = Some ''coverage run -m unittest discover && coverage report''\<rparr>),
     (''junit5'', \<lparr>fw_name = ''JUnit 5'', fw_language = JAVA, fw_run = ''mvn test'',
        fw_coverage = Some ''mvn test jacoco:report''\<rparr>),
     (''xunit'', \<lparr>fw_name = ''xUnit'', fw_language = CSHARP, fw_run = ''dotnet test'',
        fw_coverage = Some (''dotnet test --collect:'' @ dq @ ''XPlat Code Coverage'' @ dq)\<rparr>),
     (''gotest'', \<lparr>fw_name = ''Go Test'', fw_language = GO, fw_run = ''go test ./...'',
        fw_coverage = Some ''go test -cover ./...''\<rparr>),
     (''cargo_test'', \<lparr>fw_name = ''Cargo Test'', fw_language = RUST, fw_run = ''cargo test'',
        fw_coverage = Some ''cargo tarpaulin''\<rparr>),
     (''phpunit'', \<lparr>fw_name = ''PHPUnit'', fw_language = PHP, fw_run = ''./vendor/bin/phpunit'',
        fw_coverage = Some ''./vendor/bin/phpunit --coverage-html coverage''\<rparr>)]"

section \<open>Test runner\<close>

datatype testStatus = st_passed | st_failed | st_skipped | st_pending

record TestResult =
  tr_name :: string
  tr_status :: testStatus
  tr_duration :: nat
  tr_error :: "string option"

record testSummary =
  sum_total :: nat
  sum_passed :: nat
  sum_failed :: nat
  sum_skipped :: nat
  sum_duration :: nat
  sum_coverage :: "nat option"

record TestSuiteResult =
  suite_name :: string
  suite_tests :: "TestResult list"
  suite_summary :: testSummary

record TestResults =
  res_framework :: string
  res_suites :: "TestSuiteResult list"
  res_overall :: testSummary
  res_timestamp :: int

record runnerOptions =
  opt_verbose :: "bool option"
  opt_coverage :: "bool option"
  opt_watch :: "bool option"
  opt_parallel :: "bool option"
  opt_timeout :: "nat option"

record TestRunnerParams =
  projectPath :: string
  testFiles :: "string list option"
  testFramework :: string
  options :: "runnerOptions option"

definition noOptions :: runnerOptions where
  \<comment> \<open>the default \<open>options = {}\<close>\<close>
  "noOptions = \<lparr>opt_verbose = None, opt_coverage = None, opt_watch = None, opt_parallel = None,
     opt_timeout = None\<rparr>"

definition optionsOf :: "TestRunnerParams \<Rightarrow> runnerOptions" where
  "optionsOf params = (case options params of None \<Rightarrow> noOptions | Some opts \<Rightarrow> opts)"

fun findFramework :: "string \<Rightarrow> (string \<times> frameworkConfig) list \<Rightarrow> (string \<times> frameworkConfig) option" where
  "findFramework frameworkName [] = None"
| "findFramework frameworkName ((key, config) # rest) =
     (if toLowerCase (fw_name config) = toLowerCase frameworkName \<or> key = toLowerCase frameworkName
      then Some (key, config) else findFramework frameworkName rest)"

definition getFrameworkConfig :: "string \<Rightarrow> (string \<times> frameworkConfig) option" where
  \<comment> \<open>the configuration together with its key, \<open>None\<close> for \<open>null\<close>\<close>
  "getFrameworkConfig frameworkName = findFramework frameworkName SUPPORTED_FRAMEWORKS"

definition lookupFlag :: "(string \<times> string) list \<Rightarrow> string \<Rightarrow> string" where
  \<comment> \<open>\<open>flags[frameworkKey] || ''\<close>\<close>
  "lookupFlag flags frameworkKey = (case map_of flags frameworkKey of None \<Rightarrow> [] | Some f \<Rightarrow> f)"

definition getVerboseFlag :: "string \<Rightarrow> string" where
  "getVerboseFlag = lookupFlag
    [(''jest'', '' --verbose''), (''mocha'', '' --reporter spec''),
     (''vitest'', '' --reporter=verbose''), (''pytest'', '' -v''), (''unittest'', '' -v''),
     (''junit5'', '' -Dtest.verbose=true''), (''xunit'', '' -verbose''), (''gotest'', '' -v''),
     (''cargo_test'', '' --verbose''), (''phpunit'', '' --verbose'')]"

definition getParallelFlag :: "string \<Rightarrow> string" where
  "getParallelFlag = lookupFlag
    [(''jest'', '' --maxWorkers=auto''), (''vitest'', '' --reporter=verbose''),
     (''pytest'', '' -n auto''), (''junit5'', '' -Djunit.parallel.enabled=true''),
     (''gotest'', '' -parallel''), (''cargo_test'', '' --jobs 0'')]"

definition getJsonOutputFlag :: "string \<Rightarrow> string" where
  "getJsonOutputFlag = lookupFlag
    [(''jest'', '' --json --outputFile=test-results.json''),
     (''mocha'', '' --reporter json --reporter-options output=test-results.json''),
     (''vitest'', '' --reporter=json --outputFile=test-results.json''),
     (''pytest'', '' --json-report --json-report-file=test-results.json''),
     (''junit5'', '' -Djunit.platform.reporting.output.dir=test-results''),
     (''xunit'', '' -xml test-results.xml''),
     (''gotest'', '' -json > test-results.json''),
     (''cargo_test'', '' --format json > test-results.json''),
     (''phpunit'', '' --log-json test-results.json'')]"

definition buildTestCommand :: "string \<times> frameworkConfig \<Rightarrow> TestRunnerParams \<Rightarrow> string" where
  "buildTestCommand framework params =
     (let key = fst framework; config = snd framework; opts = optionsOf params;
          command0 =
            (case fw_coverage config of
               Some cov \<Rightarrow> if opt_coverage opts = Some True \<and> cov \<noteq> [] then cov else fw_run config
             | None \<Rightarrow> fw_run config);
          command1 = (if opt_verbose opts = Some True then command0 @ getVerboseFlag key else command0);
          command2 =
            (if opt_parallel opts \<noteq> Some False then command1 @ getParallelFlag key else command1);
          command3 =
            (case testFiles params of
               None \<Rightarrow> command2
             | Some files \<Rightarrow> if length files > 0 then command2 @ '' '' @ join files '' '' else command2)
      in command3 @ getJsonOutputFlag key)"

datatype pathStat = Missing | NotDirectory | Directory

datatype failureKind = CommandFailed nat | RunnerNotFound | TimedOut

record execError =
  \<comment> \<open>the \<open>Error\<close> that a rejected \<open>execAsync\<close> carries\<close>
  err_kind :: failureKind
  err_message :: string
  err_toString :: string

datatype execOutcome = Completed string string | Rejected execError

record runnerEnv =
  \<comment> \<open>the file system and the subprocess as \<open>runTests\<close> observes them\<close>
  env_stat :: "string \<Rightarrow> pathStat"
  env_exec :: "string \<Rightarrow> string \<Rightarrow> nat \<Rightarrow> execOutcome"
  env_jsonResults :: "TestResults option"
  env_duration :: nat
  env_now :: int

definition validateProjectPath :: "runnerEnv \<Rightarrow> string \<Rightarrow> string + unit" where
  \<comment> \<open>a missing path and a path that is no directory both end in the outer \<open>catch\<close>\<close>
  "validateProjectPath env path =
     (case env_stat env path of
        Directory \<Rightarrow> Inr ()
      | _ \<Rightarrow> Inl (''Invalid project path: '' @ path))"

fun showDigits :: "nat \<Rightarrow> nat \<Rightarrow> string" where
  \<comment> \<open>the decimal digits of a number; the first argument bounds the number of digits\<close>
  "showDigits 0 n = []"
| "showDigits (Suc k) n =
     (if n < 10 then [char_of (48 + n)] else showDigits k (n div 10) @ [char_of (48 + n mod 10)])"

definition showNat :: "nat \<Rightarrow> string" where
  "showNat n = showDigits (Suc n) n"

definition checkMark :: string where
  \<comment> \<open>U+2713 in UTF-8\<close>
  "checkMark = [CHR 0xE2, CHR 0x9C, CHR 0x93]"

definition crossMark :: string where
  \<comment> \<open>U+2717 in UTF-8\<close>
  "crossMark = [CHR 0xE2, CHR 0x9C, CHR 0x97]"

definition parseTextResults :: "runnerEnv \<Rightarrow> string \<Rightarrow> string \<Rightarrow> frameworkConfig \<Rightarrow> nat \<Rightarrow> TestResults" where
  "parseTextResults env stdout stderr config duration =
     (let ls = split (stdout @ newline @ stderr) newline;
          passedTests = filter (\<lambda>l. js_includes l checkMark \<or> js_includes l ''PASSED'' \<or>
                                   js_includes l ''OK'') ls;
          failedTests = filter (\<lambda>l. js_includes l crossMark \<or> js_includes l ''FAILED'' \<or>
                                   js_includes l ''ERROR'') ls;
          skippedTests = filter (\<lambda>l. js_includes l ''SKIPPED'' \<or> js_includes l ''PENDING'') ls;
          tests =
            map (\<lambda>i. \<lparr>tr_name = ''Test '' @ showNat (i + 1), tr_status = st_passed,
                       tr_duration = 0, tr_error = None\<rparr>) [0..<length passedTests] @
            map (\<lambda>(i, l). \<lparr>tr_name = ''Failed Test '' @ showNat (i + 1), tr_status = st_failed,
                       tr_duration = 0, tr_error = Some l\<rparr>) (enumerate 0 failedTests) @
            map (\<lambda>i. \<lparr>tr_name = ''Skipped Test '' @ showNat (i + 1), tr_status = st_skipped,
                       tr_duration = 0, tr_error = None\<rparr>) [0..<length skippedTests];
          summary = \<lparr>sum_total = length tests, sum_passed = length passedTests,
                      sum_failed = length failedTests, sum_skipped = length skippedTests,
                      sum_duration = duration, sum_coverage = None\<rparr>
      in \<lparr>res_framework = fw_name config,
          res_suites = [\<lparr>suite_name = ''Test Suite'', suite_tests = tests,
                          suite_summary = summary\<rparr>],
          res_overall = summary,
          res_timestamp = env_now env\<rparr>)"

definition parseTestResults :: "runnerEnv \<Rightarrow> string \<Rightarrow> string \<Rightarrow> frameworkConfig \<Rightarrow> nat \<Rightarrow> TestResults" where
  \<comment> \<open>\<open>env_jsonResults\<close> is what \<open>parseJsonResults\<close> makes of the report files of the
      third-party runner, \<open>None\<close> when it returns \<open>null\<close> or raises\<close>
  "parseTestResults env stdout stderr config duration =
     (case env_jsonResults env of
        Some jsonResults \<Rightarrow> jsonResults
      | None \<Rightarrow> parseTextResults env stdout stderr config duration)"

definition handleTestError :: "runnerEnv \<Rightarrow> execError \<Rightarrow> string \<Rightarrow> TestResults" where
  "handleTestError env err framework =
     (let errorMessage = (if err_message err \<noteq> [] then err_message err else err_toString err);
          summary = \<lparr>sum_total = 1, sum_passed = 0, sum_failed = 1, sum_skipped = 0,
                      sum_duration = 0, sum_coverage = None\<rparr>
      in \<lparr>res_framework = framework,
          res_suites = [\<lparr>suite_name = ''Test Execution Error'',
                          suite_tests = [\<lparr>tr_name = ''Test Runner Error'', tr_status = st_failed,
                                           tr_duration = 0, tr_error = Some errorMessage\<rparr>],
                          suite_summary = summary\<rparr>],
          res_overall = summary,
          res_timestamp = env_now env\<rparr>)"

definition execTimeout :: "TestRunnerParams \<Rightarrow> nat" where
  \<comment> \<open>\<open>options.timeout || 300000\<close>\<close>
  "execTimeout params =
     (case opt_timeout (optionsOf params) of
        None \<Rightarrow> 300000
      | Some t \<Rightarrow> if t = 0 then 300000 else t)"

definition runTests :: "runnerEnv \<Rightarrow> TestRunnerParams \<Rightarrow> string + TestResults" where
  \<comment> \<open>\<open>TestRunnerService.runTests\<close>; \<open>Inl\<close> is a raised \<open>Error\<close> with its message\<close>
  "runTests env params =
     (case getFrameworkConfig (testFramework params) of
        None \<Rightarrow> Inl (''Unsupported test framework: '' @ testFramework params)
      | Some framework \<Rightarrow>
          (case validateProjectPath env (projectPath params) of
             Inl e \<Rightarrow> Inl e
           | Inr _ \<Rightarrow>
               (case env_exec env (buildTestCommand framework params) (projectPath params)
                       (execTimeout params) of
                  Completed stdout stderr \<Rightarrow>
                    Inr (parseTestResults env stdout stderr (snd framework) (env_duration env))
                | Rejected err \<Rightarrow> Inr (handleTestError env err (testFramework params)))))"

definition timedOutEnv :: runnerEnv where
  \<comment> \<open>an example environment: every path is a directory and the subprocess is killed by its
      timeout\<close>
  "timedOutEnv =
     \<lparr>env_stat = (\<lambda>path. Directory),
      env_exec = (\<lambda>command cwd timeout.
        Rejected \<lparr>err_kind = TimedOut, err_message = ''Command failed: '' @ command,
                   err_toString = ''Error: Command failed: '' @ command\<rparr>),
      env_jsonResults = None, env_duration = 0, env_now = 0\<rparr>"

definition jestParams :: TestRunnerParams where
  "jestParams = \<lparr>projectPath = ''/test/project'', testFiles = None, testFramework = ''jest'',
     options = None\<rparr>"

section \<open>Test generator\<close>

datatype TestType = UNIT | INTEGRATION | E2E | PERFORMANCE

record TestGenerationParams =
  tg_requirements :: string
  tg_language :: SupportedLanguage
  tg_framework :: string
  tg_testType :: TestType
  tg_existingCode :: "string option"

record GeneratedTest =
  gt_name :: string
  gt_description :: string
  gt_code :: string
  gt_imports :: "string list"

record GeneratedTests =
  out_language :: SupportedLanguage
  out_framework :: string
  out_testType :: TestType
  out_tests :: "GeneratedTest list"
  out_generatedAt :: int
  out_requirements :: string
  out_estimatedCoverage :: nat

datatype caseKind = happy_path | edge_case | error_case

definition languageName :: "SupportedLanguage \<Rightarrow> string" where
  \<comment> \<open>the string value of the enum member\<close>
  "languageName l =
     (case l of TYPESCRIPT \<Rightarrow> ''typescript'' | JAVASCRIPT \<Rightarrow> ''javascript''
      | PYTHON \<Rightarrow> ''python'' | JAVA \<Rightarrow> ''java'' | CSHARP \<Rightarrow> ''csharp'' | GO \<Rightarrow> ''go''
      | RUST \<Rightarrow> ''rust'' | PHP \<Rightarrow> ''php'')"

definition isSentenceEnd :: "char \<Rightarrow> bool" where
  \<comment> \<open>the character class \<open>[.!?]\<close>\<close>
  "isSentenceEnd c = (c = CHR ''.'' \<or> c = CHR ''!'' \<or> c = CHR ''?'')"

function splitRuns :: "(char \<Rightarrow> bool) \<Rightarrow> string \<Rightarrow> string \<Rightarrow> string list" where
  \<comment> \<open>\<open>s.split(/[d]+/)\<close>: the pieces between maximal runs of separator characters\<close>
  "splitRuns d cur [] = [rev cur]"
| "splitRuns d cur (c # cs) =
     (if d c then rev cur # splitRuns d [] (dropWhile d cs) else splitRuns d (c # cur) cs)"
  by pat_completeness auto
termination
  by (relation "measure (\<lambda>(d, cur, s). length s)")
     (auto simp: le_imp_less_Suc length_dropWhile_le)

definition sentences :: "string \<Rightarrow> string list" where
  \<comment> \<open>\<open>requirements.split(/[.!?]+/).filter(s => s.trim().length > 0)\<close>\<close>
  "sentences reqs = filter (\<lambda>s. length (trim s) > 0) (splitRuns isSentenceEnd [] reqs)"

definition isBehavior :: "string \<Rightarrow> bool" where
  "isBehavior trimmed =
     (js_includes (toLowerCase trimmed) ''should'' \<or> js_includes (toLowerCase trimmed) ''must'' \<or>
      js_includes (toLowerCase trimmed) ''when'' \<or> js_includes (toLowerCase trimmed) ''given'')"

definition parseRequirements :: "string \<Rightarrow> string list" where
  "parseRequirements reqs =
     (let behaviors = filter isBehavior (map trim (sentences reqs))
      in if length behaviors = 0 then [reqs] else behaviors)"

definition isNameChar :: "char \<Rightarrow> bool" where
  \<comment> \<open>the characters that \<open>/[^a-z0-9\\s]/g\<close> leaves in place\<close>
  "isNameChar c =
     (let n = (of_char c :: nat) in (97 \<le> n \<and> n \<le> 122) \<or> (48 \<le> n \<and> n \<le> 57) \<or> isSpace c)"

function spacesToUnderscore :: "string \<Rightarrow> string" where
  \<comment> \<open>\<open>.replace(/\\s+/g, '_')\<close>\<close>
  "spacesToUnderscore [] = []"
| "spacesToUnderscore (c # cs) =
     (if isSpace c then CHR ''_'' # spacesToUnderscore (dropWhile isSpace cs)
      else c # spacesToUnderscore cs)"
  by pat_completeness auto
termination
  by (relation "measure length") (auto simp: le_imp_less_Suc length_dropWhile_le)

definition stripLeadingKeyword :: "string \<Rightarrow> string" where
  \<comment> \<open>\<open>.replace(/^(should_|must_|when_|given_)/, '')\<close>\<close>
  "stripLeadingKeyword s =
     (if prefix ''should_'' s then drop 7 s
      else if prefix ''must_'' s then drop 5 s
      else if prefix ''when_'' s then drop 5 s
      else if prefix ''given_'' s then drop 6 s
      else s)"

definition generateTestName :: "string \<Rightarrow> caseKind \<Rightarrow> string option \<Rightarrow> string" where
  "generateTestName behavior kind specificCase =
     (let name = stripLeadingKeyword
                   (spacesToUnderscore (filter isNameChar (toLowerCase behavior)));
          name' = (case specificCase of
                     None \<Rightarrow> name
                   | Some sc \<Rightarrow>
                       if sc = [] then name
                       else name @ ''_'' @ spacesToUnderscore (toLowerCase sc))
      in ''test_'' @ name')"

definition stopWords :: "string list" where
  "stopWords = [''the'', ''and'', ''or'', ''but'', ''should'', ''must'', ''when'', ''given'']"

definition extractClassName :: "string \<Rightarrow> string" where
  "extractClassName behavior =
     (case filter (\<lambda>word. length word > 2 \<and> toLowerCase word \<notin> set stopWords)
             (split behavior '' '') of
        [] \<Rightarrow> ''TestSubject''
      | w # _ \<Rightarrow> toUpperCase (take 1 w) @ toLowerCase (drop 1 w))"

definition methodVerbs :: "string list" where
  "methodVerbs = [''create'', ''update'', ''delete'', ''get'', ''set'', ''calculate'', ''process'',
     ''validate'']"

definition extractMethodName :: "string \<Rightarrow> string" where
  "extractMethodName behavior =
     (case find (\<lambda>verb. verb \<in> set (split (toLowerCase behavior) '' '')) methodVerbs of
        Some verb \<Rightarrow> verb
      | None \<Rightarrow> ''execute'')"

definition caseText :: "string option \<Rightarrow> string" where
  \<comment> \<open>\<open>${specificCase}\<close> in a template\<close>
  "caseText specificCase = (case specificCase of None \<Rightarrow> ''undefined'' | Some sc \<Rightarrow> sc)"

definition generateArrangeSection :: "caseKind \<Rightarrow> string option \<Rightarrow> string" where
  "generateArrangeSection kind specificCase =
     (case kind of
        happy_path \<Rightarrow> ''// Set up valid test data''
      | edge_case \<Rightarrow> ''// Set up edge case data for: '' @ caseText specificCase
      | error_case \<Rightarrow> ''// Set up invalid data to trigger: '' @ caseText specificCase)"

definition generateActSection ::
  "caseKind \<Rightarrow> string \<Rightarrow> string \<Rightarrow> TestGenerationParams \<Rightarrow> string" where
  "generateActSection kind className methodName params =
     (let objectName = toLowerCase className;
          plain = ''const result = '' @ objectName @ ''.'' @ methodName @ ''(testData);''
      in if kind = error_case then
           (case tg_language params of
              TYPESCRIPT \<Rightarrow> ''expect(() => '' @ objectName @ ''.'' @ methodName @ ''(testData)).toThrow();''
            | JAVASCRIPT \<Rightarrow> ''expect(() => '' @ objectName @ ''.'' @ methodName @ ''(testData)).toThrow();''
            | PYTHON \<Rightarrow> ''with pytest.raises(Exception):'' @ newline @ ''        '' @ objectName @
                         ''.'' @ methodName @ ''(test_data)''
            | JAVA \<Rightarrow> ''assertThrows(Exception.class, () -> '' @ objectName @ ''.'' @ methodName @
                       ''(testData));''
            | CSHARP \<Rightarrow> ''Assert.Throws<Exception>(() => '' @ objectName @ ''.'' @ methodName @
                         ''(testData));''
            | _ \<Rightarrow> plain)
         else plain)"

definition generateAssertSection :: "caseKind \<Rightarrow> TestGenerationParams \<Rightarrow> string" where
  "generateAssertSection kind params =
     (if kind = error_case then ''// Error case assertion handled in Act section''
      else
        (case tg_language params of
           TYPESCRIPT \<Rightarrow> ''expect(result).toBeDefined();'' @ newline @
             ''    // Add specific assertions based on expected behavior''
         | JAVASCRIPT \<Rightarrow> ''expect(result).toBeDefined();'' @ newline @
             ''    // Add specific assertions based on expected behavior''
         | PYTHON \<Rightarrow> ''assert result is not None'' @ newline @
             ''    # Add specific assertions based on expected behavior''
         | JAVA \<Rightarrow> ''assertNotNull(result);'' @ newline @
             ''    // Add specific assertions based on expected behavior''
         | CSHARP \<Rightarrow> ''Assert.NotNull(result);'' @ newline @
             ''    // Add specific assertions based on expected behavior''
         | _ \<Rightarrow> ''// Add assertions based on expected behavior''))"

definition generateJavaScriptTestCode ::
  "string \<Rightarrow> string \<Rightarrow> caseKind \<Rightarrow> TestGenerationParams \<Rightarrow> string option \<Rightarrow> string" where
  "generateJavaScriptTestCode testName behavior kind params specificCase =
     (let className = extractClassName behavior; methodName = extractMethodName behavior
      in if tg_framework params = ''jest'' then
           join [''describe('' @ sq @ className @ sq @ '', () => {'',
                 ''  it('' @ sq @ behavior @ sq @ '', () => {'',
                 ''    // Arrange'',
                 ''    const '' @ toLowerCase className @ '' = new '' @ className @ ''();'',
                 ''    '' @ generateArrangeSection kind specificCase,
                 ''    '',
                 ''    // Act'',
                 ''    '' @ generateActSection kind className methodName params,
                 ''    '',
                 ''    // Assert'',
                 ''    '' @ generateAssertSection kind params,
                 ''  });'',
                 ''});''] newline
         else ''// Test code for '' @ testName)"

definition generatePythonTestCode ::
  "string \<Rightarrow> string \<Rightarrow> caseKind \<Rightarrow> TestGenerationParams \<Rightarrow> string option \<Rightarrow> string" where
  "generatePythonTestCode testName behavior kind params specificCase =
     (let className = extractClassName behavior; methodName = extractMethodName behavior
      in if tg_framework params = ''pytest'' then
           join [''def '' @ testName @ ''():'',
                 ''    '' @ dq @ dq @ dq @ behavior @ dq @ dq @ dq,
                 ''    # Arrange'',
                 ''    '' @ toLowerCase className @ '' = '' @ className @ ''()'',
                 ''    '' @ generateArrangeSection kind specificCase,
                 ''    '',
                 ''    # Act'',
                 ''    '' @ generateActSection kind className methodName params,
                 ''    '',
                 ''    # Assert'',
                 ''    '' @ generateAssertSection kind params] newline
         else ''# Test code for '' @ testName)"

definition generateJavaTestCode ::
  "string \<Rightarrow> string \<Rightarrow> caseKind \<Rightarrow> TestGenerationParams \<Rightarrow> string option \<Rightarrow> string" where
  "generateJavaTestCode testName behavior kind params specificCase =
     (let className = extractClassName behavior; methodName = extractMethodName behavior
      in join [''@Test'',
               ''public void '' @ testName @ ''() {'',
               ''    // '' @ behavior,
               ''    '',
               ''    // Arrange'',
               ''    '' @ className @ '' '' @ toLowerCase className @ '' = new '' @ className @ ''();'',
               ''    '' @ generateArrangeSection kind specificCase,
               ''    '',
               ''    // Act'',
               ''    '' @ generateActSection kind className methodName params,
               ''    '',
               ''    // Assert'',
               ''    '' @ generateAssertSection kind params,
               ''}''] newline)"

definition generateCSharpTestCode ::
  "string \<Rightarrow> string \<Rightarrow> caseKind \<Rightarrow> TestGenerationParams \<Rightarrow> string option \<Rightarrow> string" where
  "generateCSharpTestCode testName behavior kind params specificCase =
     (let className = extractClassName behavior; methodName = extractMethodName behavior
      in join [''[Test]'',
               ''public void '' @ testName @ ''()'',
               ''{'',
               ''    // '' @ behavior,
               ''    '',
               ''    // Arrange'',
               ''    var '' @ toLowerCase className @ '' = new '' @ className @ ''();'',
               ''    '' @ generateArrangeSection kind specificCase,
               ''    '',
               ''    // Act'',
               ''    '' @ generateActSection kind className methodName params,
               ''    '',
               ''    // Assert'',
               ''    '' @ generateAssertSection kind params,
               ''}''] newline)"

definition generateTestCode ::
  "string \<Rightarrow> string \<Rightarrow> caseKind \<Rightarrow> TestGenerationParams \<Rightarrow> string option \<Rightarrow> string + string" where
  \<comment> \<open>\<open>Inl\<close> is the raised \<open>Error\<close> with its message\<close>
  "generateTestCode testName behavior kind params specificCase =
     (case tg_language params of
        TYPESCRIPT \<Rightarrow> Inr (generateJavaScriptTestCode testName behavior kind params specificCase)
      | JAVASCRIPT \<Rightarrow> Inr (generateJavaScriptTestCode testName behavior kind params specificCase)
      | PYTHON \<Rightarrow> Inr (generatePythonTestCode testName behavior kind params specificCase)
      | JAVA \<Rightarrow> Inr (generateJavaTestCode testName behavior kind params specificCase)
      | CSHARP \<Rightarrow> Inr (generateCSharpTestCode testName behavior kind params specificCase)
      | _ \<Rightarrow> Inl (''Code generation not implemented for language: '' @
                 languageName (tg_language params)))"

definition getRequiredImports :: "SupportedLanguage \<Rightarrow> string \<Rightarrow> string list" where
  "getRequiredImports lang fw =
     (case lang of
        TYPESCRIPT \<Rightarrow>
          if fw = ''jest'' then [''import { describe, it, expect } from '' @ sq @ ''@jest/globals'' @ sq @ '';'']
          else []
      | JAVASCRIPT \<Rightarrow>
          if fw = ''jest'' then [''import { describe, it, expect } from '' @ sq @ ''@jest/globals'' @ sq @ '';'']
          else []
      | PYTHON \<Rightarrow> if fw = ''pytest'' then [''import pytest''] else []
      | JAVA \<Rightarrow> [''import org.junit.jupiter.api.Test;'',
                  ''import static org.junit.jupiter.api.Assertions.*;'']
      | CSHARP \<Rightarrow> [''using NUnit.Framework;'']
      | _ \<Rightarrow> [])"

definition identifyEdgeCases :: "string \<Rightarrow> string list" where
  "identifyEdgeCases behavior =
     (let b = toLowerCase behavior;
          edgeCases =
            (if js_includes b ''number'' \<or> js_includes b ''count''
             then [''zero value'', ''negative value'', ''maximum value''] else []) @
            (if js_includes b ''string'' \<or> js_includes b ''text''
             then [''empty string'', ''very long string'', ''special characters''] else []) @
            (if js_includes b ''array'' \<or> js_includes b ''list''
             then [''empty array'', ''single element'', ''very large array''] else [])
      in if length edgeCases = 0 then [''boundary condition'', ''extreme value''] else edgeCases)"

definition identifyErrorCases :: "string \<Rightarrow> string list" where
  "identifyErrorCases behavior =
     (let b = toLowerCase behavior
      in [''null input'', ''invalid input'', ''unauthorized access''] @
         (if js_includes b ''database'' \<or> js_includes b ''storage''
          then [''connection failure'', ''timeout''] else []) @
         (if js_includes b ''network'' \<or> js_includes b ''api''
          then [''network error'', ''server error''] else []))"

definition generateHappyPathTest :: "string \<Rightarrow> TestGenerationParams \<Rightarrow> string + GeneratedTest" where
  "generateHappyPathTest behavior params =
     (let testName = generateTestName behavior happy_path None
      in case generateTestCode testName behavior happy_path params None of
           Inl e \<Rightarrow> Inl e
         | Inr testCode \<Rightarrow>
             Inr \<lparr>gt_name = testName,
                  gt_description = ''Test the happy path for: '' @ behavior,
                  gt_code = testCode,
                  gt_imports = getRequiredImports (tg_language params) (tg_framework params)\<rparr>)"

definition caseTest ::
  "caseKind \<Rightarrow> string \<Rightarrow> string \<Rightarrow> TestGenerationParams \<Rightarrow> string \<Rightarrow> string + GeneratedTest" where
  \<comment> \<open>the body of the loops of \<open>generateEdgeCaseTests\<close> and \<open>generateErrorCaseTests\<close>\<close>
  "caseTest kind label behavior params specificCase =
     (let testName = generateTestName behavior kind (Some specificCase)
      in case generateTestCode testName behavior kind params (Some specificCase) of
           Inl e \<Rightarrow> Inl e
         | Inr testCode \<Rightarrow>
             Inr \<lparr>gt_name = testName,
                  gt_description = label @ specificCase,
                  gt_code = testCode,
                  gt_imports = getRequiredImports (tg_language params) (tg_framework params)\<rparr>)"

fun collectTests :: "(string \<Rightarrow> string + GeneratedTest) \<Rightarrow> string list \<Rightarrow> string + GeneratedTest list" where
  \<comment> \<open>a \<open>for\<close> loop that pushes one test per case and stops at the first raised error\<close>
  "collectTests f [] = Inr []"
| "collectTests f (c # cs) =
     (case f c of
        Inl e \<Rightarrow> Inl e
      | Inr t \<Rightarrow> (case collectTests f cs of Inl e \<Rightarrow> Inl e | Inr ts \<Rightarrow> Inr (t # ts)))"

definition generateEdgeCaseTests :: "string \<Rightarrow> TestGenerationParams \<Rightarrow> string + GeneratedTest list" where
  "generateEdgeCaseTests behavior params =
     collectTests (caseTest edge_case ''Test edge case: '' behavior params)
       (identifyEdgeCases behavior)"

definition generateErrorCaseTests :: "string \<Rightarrow> TestGenerationParams \<Rightarrow> string + GeneratedTest list" where
  "generateErrorCaseTests behavior params =
     collectTests (caseTest error_case ''Test error case: '' behavior params)
       (identifyErrorCases behavior)"

fun behaviorTests :: "TestGenerationParams \<Rightarrow> string list \<Rightarrow> string + GeneratedTest list" where
  \<comment> \<open>the loop of \<open>generateTestCases\<close> over the behaviors\<close>
  "behaviorTests params [] = Inr []"
| "behaviorTests params (behavior # rest) =
     (case generateHappyPathTest behavior params of
        Inl e \<Rightarrow> Inl e
      | Inr happy \<Rightarrow>
          (case generateEdgeCaseTests behavior params of
             Inl e \<Rightarrow> Inl e
           | Inr edges \<Rightarrow>
               (case generateErrorCaseTests behavior params of
                  Inl e \<Rightarrow> Inl e
                | Inr errors \<Rightarrow>
                    (case behaviorTests params rest of
                       Inl e \<Rightarrow> Inl e
                     | Inr others \<Rightarrow> Inr (happy # edges @ errors @ others)))))"

definition generateTestCases :: "TestGenerationParams \<Rightarrow> string + GeneratedTest list" where
  "generateTestCases params = behaviorTests params (parseRequirements (tg_requirements params))"

definition isFrameworkSupported :: "SupportedLanguage \<Rightarrow> string \<Rightarrow> bool" where
  "isFrameworkSupported lang fw =
     list_ex (\<lambda>f. fw_language f = lang \<and> toLowerCase (fw_name f) = toLowerCase fw)
       (map snd SUPPORTED_FRAMEWORKS)"

definition estimateCoverage :: "GeneratedTest list \<Rightarrow> nat" where
  "estimateCoverage tests =
     (let baselineScore = min (length tests * 15) 80;
          bonus = (if list_ex (\<lambda>t. js_includes (gt_description t) ''happy path'') tests then 5 else 0)
                + (if list_ex (\<lambda>t. js_includes (gt_description t) ''edge case'') tests then 10 else 0)
                + (if list_ex (\<lambda>t. js_includes (gt_description t) ''error case'') tests then 5 else 0)
      in min (baselineScore + bonus) 95)"

definition generateTests :: "int \<Rightarrow> TestGenerationParams \<Rightarrow> string + GeneratedTests" where
  \<comment> \<open>\<open>TestGeneratorService.generateTests\<close>; the first argument is the clock\<close>
  "generateTests now params =
     (if \<not> isFrameworkSupported (tg_language params) (tg_framework params)
      then Inl (''Framework '' @ tg_framework params @ '' is not supported for language '' @
                languageName (tg_language params))
      else
        (case generateTestCases params of
           Inl e \<Rightarrow> Inl e
         | Inr tests \<Rightarrow>
             Inr \<lparr>out_language = tg_language params, out_framework = tg_framework params,
                  out_testType = tg_testType params, out_tests = tests, out_generatedAt = now,
                  out_requirements = tg_requirements params,
                  out_estimatedCoverage = estimateCoverage tests\<rparr>))"

definition numberExample :: TestGenerationParams where
  \<comment> \<open>a requirement whose sentence with the word number has none of the behavior keywords\<close>
  "numberExample = \<lparr>tg_requirements = ''Parse a number. It should work'', tg_language = TYPESCRIPT,
     tg_framework = ''jest'', tg_testType = UNIT, tg_existingCode = None\<rparr>"

definition numberBehaviorExample :: TestGenerationParams where
  "numberBehaviorExample = \<lparr>tg_requirements = ''It should parse a number. Fast'',
     tg_language = TYPESCRIPT, tg_framework = ''jest'', tg_testType = UNIT, tg_existingCode = None\<rparr>"

section \<open>JavaScript values and JSON\<close>

text \<open>
  The records of the store are JavaScript objects at run time, whatever their TypeScript
  type says. A finite number is the rational it denotes, the two zeros being one, as they
  are for \<open>===\<close>; \<open>JInf True\<close> and \<open>JInf False\<close> are \<open>Infinity\<close> and \<open>-Infinity\<close>, \<open>JNaN\<close> is
  \<open>NaN\<close>; \<open>JDate None\<close> is an invalid date. An absent property (\<open>undefined\<close>) is an absent
  key.
\<close>

datatype jsval =
    JNull
  | JBool bool
  | JNum rat
  | JInf bool
  | JNaN
  | JStr string
  | JDate "int option"
  | JArr "jsval list"
  | JObj "(string \<times> jsval) list"

definition getProp :: "jsval \<Rightarrow> string \<Rightarrow> jsval option" where
  \<comment> \<open>\<open>v[k]\<close> for a value other than \<open>null\<close>; \<open>None\<close> is \<open>undefined\<close>\<close>
  "getProp v k = (case v of JObj kvs \<Rightarrow> map_of kvs k | _ \<Rightarrow> None)"

fun setProp :: "string \<Rightarrow> jsval \<Rightarrow> (string \<times> jsval) list \<Rightarrow> (string \<times> jsval) list" where
  \<comment> \<open>an assignment \<open>obj[k] = v\<close>, or a later key of an object literal: an existing key
      keeps its place\<close>
  "setProp k v [] = [(k, v)]"
| "setProp k v ((k', v') # kvs) =
     (if k' = k then (k, v) # kvs else (k', v') # setProp k v kvs)"

definition truthy :: "jsval option \<Rightarrow> bool" where
  "truthy x =
     (case x of
        None \<Rightarrow> False
      | Some JNull \<Rightarrow> False
      | Some (JBool b) \<Rightarrow> b
      | Some (JNum n) \<Rightarrow> n \<noteq> 0
      | Some JNaN \<Rightarrow> False
      | Some (JStr s) \<Rightarrow> s \<noteq> []
      | Some _ \<Rightarrow> True)"

record dateCodec =
  \<comment> \<open>the two library functions that carry a date through a JSON line:
      \<open>Date.prototype.toISOString\<close> and the parser of \<open>new Date(string)\<close>\<close>
  toISOString :: "int \<Rightarrow> string"
  parseDate :: "string \<Rightarrow> int option"

definition dateContract :: "dateCodec \<Rightarrow> bool" where
  \<comment> \<open>the library's contract: the ISO string of a time value is not empty and parses back
      to the same millisecond\<close>
  "dateContract codec =
     (\<forall>t. parseDate codec (toISOString codec t) = Some t \<and> toISOString codec t \<noteq> [])"

fun toJSON :: "(int \<Rightarrow> string) \<Rightarrow> jsval \<Rightarrow> jsval" where
  \<comment> \<open>what \<open>JSON.parse(JSON.stringify(v))\<close> yields: a date becomes its ISO string; an
      invalid date and a number that is not finite become \<open>null\<close>\<close>
  "toJSON fmt (JDate (Some t)) = JStr (fmt t)"
| "toJSON fmt (JDate None) = JNull"
| "toJSON fmt (JInf b) = JNull"
| "toJSON fmt JNaN = JNull"
| "toJSON fmt (JArr vs) = JArr (map (toJSON fmt) vs)"
| "toJSON fmt (JObj kvs) = JObj (map (\<lambda>(k, v). (k, toJSON fmt v)) kvs)"
| "toJSON fmt v = v"

definition dateFields :: "string list" where
  "dateFields = [''createdAt'', ''updatedAt'', ''startedAt'', ''completedAt'', ''lastExecutedAt'',
     ''lastModified'']"

definition restoreField :: "(string \<Rightarrow> int option) \<Rightarrow> string \<Rightarrow> jsval \<Rightarrow> jsval \<Rightarrow> jsval" where
  \<comment> \<open>what \<open>restoreDates\<close> leaves under the key \<open>k\<close> that held \<open>v\<close>: a non-empty string under a
      date field name becomes a date (the recursion into the new date finds no key); any
      other value is processed recursively, \<open>r\<close> being the outcome\<close>
  "restoreField rd k v r =
     (case v of
        JStr s \<Rightarrow> if k \<in> set dateFields \<and> s \<noteq> [] then JDate (rd s) else JStr s
      | _ \<Rightarrow> r)"

fun restoreDates :: "(string \<Rightarrow> int option) \<Rightarrow> jsval \<Rightarrow> jsval" where
  \<comment> \<open>\<open>StorageService.restoreDates\<close>, returning the object it mutates\<close>
  "restoreDates rd (JObj kvs) =
     JObj (map (\<lambda>(k, v). (k, restoreField rd k v (restoreDates rd v))) kvs)"
| "restoreDates rd (JArr vs) = JArr (map (restoreDates rd) vs)"
| "restoreDates rd v = v"

section \<open>Flat-file record store\<close>

text \<open>
  A JSONL file is modelled by what \<open>JSON.parse\<close> makes of each of its non-blank lines:
  \<open>Some v\<close> for a line that parses to \<open>v\<close>, \<open>None\<close> for a line on which it throws. A
  written line is the JSON text of the item, so it reads back as \<open>toJSON\<close> of the item.
  A project id is taken to be the name of a directory directly under the storage path, as
  the ids are that the service makes up itself: the directories there are the project ids,
  in the order \<open>readdir\<close> lists them. File system calls are taken to succeed.
\<close>

type_synonym jsonl = "jsval option list"

record fileSystem =
  fs_projects :: "string list"
  fs_features :: "string \<Rightarrow> jsonl option"
  fs_sessions :: "string \<Rightarrow> jsonl option"

datatype error =
    TypeError string
  | TypeErrorUndefined string
  | NotPrimitive
  | InvalidFeatureData
  | InvalidTDDSessionData
  | FeatureNotFound string

definition errorMessage :: "error \<Rightarrow> string" where
  \<comment> \<open>\<open>error.message\<close>; a type error names the property that was read of \<open>null\<close> or of
      \<open>undefined\<close>; the issue list that the schema library appends to a validation message
      is left out\<close>
  "errorMessage e =
     (case e of
        TypeError name \<Rightarrow> ''Cannot read properties of null (reading '' @ sq @ name @ sq @ '')''
      | TypeErrorUndefined name \<Rightarrow>
          ''Cannot read properties of undefined (reading '' @ sq @ name @ sq @ '')''
      | NotPrimitive \<Rightarrow> ''Cannot convert object to primitive value''
      | InvalidFeatureData \<Rightarrow> ''Invalid feature data: ''
      | InvalidTDDSessionData \<Rightarrow> ''Invalid TDD session data: ''
      | FeatureNotFound fid \<Rightarrow> ''Feature not found: '' @ fid)"

definition emptyStore :: fileSystem where
  "emptyStore = \<lparr>fs_projects = [], fs_features = (\<lambda>p. None), fs_sessions = (\<lambda>p. None)\<rparr>"

definition ensureProjectDirectory :: "fileSystem \<Rightarrow> string \<Rightarrow> fileSystem" where
  "ensureProjectDirectory fs projectId =
     (if projectId \<in> set (fs_projects fs) then fs
      else fs\<lparr>fs_projects := fs_projects fs @ [projectId]\<rparr>)"

definition listProjects :: "fileSystem \<Rightarrow> string list" where
  "listProjects fs = fs_projects fs"

definition readJsonlFile :: "dateCodec \<Rightarrow> jsonl option \<Rightarrow> jsval list" where
  \<comment> \<open>a missing file reads as no item; a malformed line is skipped\<close>
  "readJsonlFile codec file =
     (case file of
        None \<Rightarrow> []
      | Some ls \<Rightarrow> map (restoreDates (parseDate codec)) (List.map_filter (\<lambda>l. l) ls))"

definition writeJsonlFile :: "dateCodec \<Rightarrow> jsval list \<Rightarrow> jsonl option" where
  "writeJsonlFile codec items = Some (map (\<lambda>item. Some (toJSON (toISOString codec) item)) items)"

definition appendToJsonlFile :: "dateCodec \<Rightarrow> jsonl option \<Rightarrow> jsval \<Rightarrow> jsonl option" where
  "appendToJsonlFile codec file item =
     Some ((case file of None \<Rightarrow> [] | Some ls \<Rightarrow> ls) @ [Some (toJSON (toISOString codec) item)])"

subsection \<open>Schemas\<close>

definition isString :: "jsval option \<Rightarrow> bool" where
  "isString x = (case x of Some (JStr s) \<Rightarrow> True | _ \<Rightarrow> False)"

definition isNonEmptyString :: "jsval option \<Rightarrow> bool" where
  "isNonEmptyString x = (case x of Some (JStr s) \<Rightarrow> s \<noteq> [] | _ \<Rightarrow> False)"

definition isOneOf :: "string list \<Rightarrow> jsval option \<Rightarrow> bool" where
  "isOneOf names x = (case x of Some (JStr s) \<Rightarrow> s \<in> set names | _ \<Rightarrow> False)"

definition isStringArray :: "jsval option \<Rightarrow> bool" where
  "isStringArray x =
     (case x of
        Some (JArr vs) \<Rightarrow> list_all (\<lambda>v. case v of JStr s \<Rightarrow> True | _ \<Rightarrow> False) vs
      | _ \<Rightarrow> False)"

definition isValidDate :: "jsval option \<Rightarrow> bool" where
  "isValidDate x = (case x of Some (JDate (Some t)) \<Rightarrow> True | _ \<Rightarrow> False)"

definition isNumberWhere :: "(rat \<Rightarrow> bool) \<Rightarrow> bool \<Rightarrow> jsval option \<Rightarrow> bool" where
  \<comment> \<open>\<open>z.number()\<close> with bounds, as in version 3 of the schema library, whose interface the
      schemas use: \<open>NaN\<close> is no number, \<open>Infinity\<close> and \<open>-Infinity\<close> are numbers that the
      bounds are compared with; \<open>P\<close> is the bounds on a finite number, \<open>up\<close> says whether
      \<open>Infinity\<close> is within them (\<open>-Infinity\<close> is below every lower bound used here)\<close>
  "isNumberWhere P up x =
     (case x of Some (JNum n) \<Rightarrow> P n | Some (JInf positive) \<Rightarrow> positive \<and> up | _ \<Rightarrow> False)"

definition optional :: "(jsval option \<Rightarrow> bool) \<Rightarrow> jsval option \<Rightarrow> bool" where
  "optional P x = (case x of None \<Rightarrow> True | Some v \<Rightarrow> P (Some v))"

datatype FeatureStatus = PLANNING | IN_PROGRESS | COMPLETED | ON_HOLD | CANCELLED

datatype FeaturePriority = LOW | MEDIUM | HIGH | CRITICAL

datatype TDDStage = STAGE_RED | STAGE_GREEN | STAGE_REFACTOR

definition statusName :: "FeatureStatus \<Rightarrow> string" where
  "statusName s =
     (case s of PLANNING \<Rightarrow> ''planning'' | IN_PROGRESS \<Rightarrow> ''in_progress''
      | COMPLETED \<Rightarrow> ''completed'' | ON_HOLD \<Rightarrow> ''on_hold'' | CANCELLED \<Rightarrow> ''cancelled'')"

definition priorityName :: "FeaturePriority \<Rightarrow> string" where
  "priorityName p =
     (case p of LOW \<Rightarrow> ''low'' | MEDIUM \<Rightarrow> ''medium'' | HIGH \<Rightarrow> ''high'' | CRITICAL \<Rightarrow> ''critical'')"

definition stageName :: "TDDStage \<Rightarrow> string" where
  "stageName s =
     (case s of STAGE_RED \<Rightarrow> ''red'' | STAGE_GREEN \<Rightarrow> ''green'' | STAGE_REFACTOR \<Rightarrow> ''refactor'')"

definition statusNames :: "string list" where
  "statusNames = [''planning'', ''in_progress'', ''completed'', ''on_hold'', ''cancelled'']"

definition priorityNames :: "string list" where
  "priorityNames = [''low'', ''medium'', ''high'', ''critical'']"

definition stageNames :: "string list" where
  "stageNames = [''red'', ''green'', ''refactor'']"

definition ProgressInfoSchema :: "jsval option \<Rightarrow> bool" where
  "ProgressInfoSchema x =
     (case x of
        Some (JObj kvs) \<Rightarrow>
          isNumberWhere (\<lambda>n. 0 \<le> n) True (map_of kvs ''testsWritten'') \<and>
          isNumberWhere (\<lambda>n. 0 \<le> n) True (map_of kvs ''testsPass'') \<and>
          isStringArray (map_of kvs ''implementationFiles'') \<and>
          optional (isNumberWhere (\<lambda>n. 0 \<le> n \<and> n \<le> 100) False) (map_of kvs ''coveragePercentage'')
      | _ \<Rightarrow> False)"

definition FeatureSchema :: "jsval \<Rightarrow> bool" where
  \<comment> \<open>whether \<open>FeatureSchema.safeParse\<close> succeeds; unknown keys are allowed\<close>
  "FeatureSchema v =
     (case v of
        JObj kvs \<Rightarrow>
          isString (map_of kvs ''id'') \<and>
          isString (map_of kvs ''projectId'') \<and>
          isNonEmptyString (map_of kvs ''name'') \<and>
          isString (map_of kvs ''description'') \<and>
          isOneOf statusNames (map_of kvs ''status'') \<and>
          isOneOf priorityNames (map_of kvs ''priority'') \<and>
          isStringArray (map_of kvs ''acceptanceCriteria'') \<and>
          isValidDate (map_of kvs ''createdAt'') \<and>
          isValidDate (map_of kvs ''updatedAt'') \<and>
          optional ProgressInfoSchema (map_of kvs ''progress'') \<and>
          optional isStringArray (map_of kvs ''tags'') \<and>
          optional (isNumberWhere (\<lambda>n. 0 < n) True) (map_of kvs ''estimatedHours'') \<and>
          optional (isNumberWhere (\<lambda>n. 0 < n) True) (map_of kvs ''actualHours'') \<and>
          optional isString (map_of kvs ''assignee'')
      | _ \<Rightarrow> False)"

definition TDDSessionSchema :: "jsval \<Rightarrow> bool" where
  "TDDSessionSchema v =
     (case v of
        JObj kvs \<Rightarrow>
          isString (map_of kvs ''id'') \<and>
          isString (map_of kvs ''featureId'') \<and>
          isString (map_of kvs ''projectId'') \<and>
          isString (map_of kvs ''developer'') \<and>
          isOneOf stageNames (map_of kvs ''stage'') \<and>
          isValidDate (map_of kvs ''startedAt'') \<and>
          isValidDate (map_of kvs ''updatedAt'') \<and>
          optional isValidDate (map_of kvs ''completedAt'') \<and>
          optional isString (map_of kvs ''notes'') \<and>
          isNumberWhere (\<lambda>n. 0 \<le> n) True (map_of kvs ''cycleCount'') \<and>
          optional isStringArray (map_of kvs ''testFiles'') \<and>
          optional isStringArray (map_of kvs ''implementationFiles'')
      | _ \<Rightarrow> False)"

subsection \<open>Features\<close>

definition saveFeature :: "dateCodec \<Rightarrow> fileSystem \<Rightarrow> jsval \<Rightarrow> (error + unit) \<times> fileSystem" where
  \<comment> \<open>\<open>StorageService.saveFeature\<close>: the outcome and the file system afterwards\<close>
  "saveFeature codec fs feature =
     (if \<not> FeatureSchema feature then (Inl InvalidFeatureData, fs)
      else
        (case getProp feature ''projectId'' of
           Some (JStr projectId) \<Rightarrow>
             (let fs1 = ensureProjectDirectory fs projectId
              in (Inr (),
                  fs1\<lparr>fs_features := (fs_features fs1)
                        (projectId := appendToJsonlFile codec (fs_features fs1 projectId) feature)\<rparr>))
         | _ \<Rightarrow> (Inl InvalidFeatureData, fs)))"

definition listFeatures :: "dateCodec \<Rightarrow> fileSystem \<Rightarrow> string \<Rightarrow> error + jsval list" where
  \<comment> \<open>\<open>StorageService.listFeatures\<close>; reading \<open>projectId\<close> of an item that is \<open>null\<close> raises
      a type error\<close>
  "listFeatures codec fs projectId =
     (let allFeatures = readJsonlFile codec (fs_features fs projectId)
      in if JNull \<in> set allFeatures then Inl (TypeError ''projectId'')
         else Inr (filter (\<lambda>feature. getProp feature ''projectId'' = Some (JStr projectId)) allFeatures))"

fun loadFeatureFrom :: "dateCodec \<Rightarrow> fileSystem \<Rightarrow> string \<Rightarrow> string list \<Rightarrow> error + jsval option" where
  \<comment> \<open>the loop of \<open>loadFeature\<close> over the projects; \<open>None\<close> is \<open>null\<close>\<close>
  "loadFeatureFrom codec fs fid [] = Inr None"
| "loadFeatureFrom codec fs fid (projectId # rest) =
     (case listFeatures codec fs projectId of
        Inl e \<Rightarrow> Inl e
      | Inr features \<Rightarrow>
          (case find (\<lambda>f. getProp f ''id'' = Some (JStr fid)) features of
             Some feature \<Rightarrow> Inr (Some feature)
           | None \<Rightarrow> loadFeatureFrom codec fs fid rest))"

definition loadFeature :: "dateCodec \<Rightarrow> fileSystem \<Rightarrow> string \<Rightarrow> error + jsval option" where
  "loadFeature codec fs fid = loadFeatureFrom codec fs fid (listProjects fs)"

fun findById :: "string \<Rightarrow> jsval list \<Rightarrow> error + (jsval list \<times> jsval \<times> jsval list) option" where
  \<comment> \<open>\<open>items.find(x => x.id === id)\<close> on the items of a file: the first match with the
      items before and after it; an item \<open>null\<close> met on the way raises a type error\<close>
  "findById fid [] = Inr None"
| "findById fid (x # xs) =
     (if x = JNull then Inl (TypeError ''id'')
      else if getProp x ''id'' = Some (JStr fid) then Inr (Some ([], x, xs))
      else
        (case findById fid xs of
           Inl e \<Rightarrow> Inl e
         | Inr None \<Rightarrow> Inr None
         | Inr (Some (before, y, after)) \<Rightarrow> Inr (Some (x # before, y, after))))"

definition objectProps :: "jsval \<Rightarrow> (string \<times> jsval) list" where
  \<comment> \<open>the own properties that an object spread copies; the values spread here are objects\<close>
  "objectProps v = (case v of JObj kvs \<Rightarrow> kvs | _ \<Rightarrow> [])"

fun storageUpdateFeatureStatusIn ::
  "dateCodec \<Rightarrow> int \<Rightarrow> fileSystem \<Rightarrow> string \<Rightarrow> FeatureStatus \<Rightarrow> string list \<Rightarrow>
     (error + bool) \<times> fileSystem" where
  "storageUpdateFeatureStatusIn codec now fs fid status [] = (Inr False, fs)"
| "storageUpdateFeatureStatusIn codec now fs fid status (projectId # rest) =
     (case findById fid (readJsonlFile codec (fs_features fs projectId)) of
        Inl e \<Rightarrow> (Inl e, fs)
      | Inr None \<Rightarrow> storageUpdateFeatureStatusIn codec now fs fid status rest
      | Inr (Some (before, feature, after)) \<Rightarrow>
          (let feature' = JObj (setProp ''updatedAt'' (JDate (Some now))
                                 (setProp ''status'' (JStr (statusName status))
                                    (objectProps feature)))
           in (Inr True,
               fs\<lparr>fs_features := (fs_features fs)
                     (projectId := writeJsonlFile codec (before @ [feature'] @ after))\<rparr>)))"

definition storageUpdateFeatureStatus ::
  "dateCodec \<Rightarrow> int \<Rightarrow> fileSystem \<Rightarrow> string \<Rightarrow> FeatureStatus \<Rightarrow> (error + bool) \<times> fileSystem" where
  \<comment> \<open>\<open>StorageService.updateFeatureStatus\<close>; \<open>now\<close> is the clock\<close>
  "storageUpdateFeatureStatus codec now fs fid status =
     storageUpdateFeatureStatusIn codec now fs fid status (listProjects fs)"

subsection \<open>Typed feature records\<close>

record ProgressInfo =
  pi_testsWritten :: rat
  pi_testsPass :: rat
  pi_implementationFiles :: "string list"
  pi_coveragePercentage :: "rat option"

record Feature =
  \<comment> \<open>the TypeScript type \<open>Feature\<close>\<close>
  f_id :: string
  f_projectId :: string
  f_name :: string
  f_description :: string
  f_status :: FeatureStatus
  f_priority :: FeaturePriority
  f_acceptanceCriteria :: "string list"
  f_createdAt :: "int option"
  f_updatedAt :: "int option"
  f_progress :: "ProgressInfo option"
  f_tags :: "string list option"
  f_estimatedHours :: "rat option"
  f_actualHours :: "rat option"
  f_assignee :: "string option"

definition optField :: "string \<Rightarrow> jsval option \<Rightarrow> (string \<times> jsval) list" where
  \<comment> \<open>a property whose value may be \<open>undefined\<close>\<close>
  "optField k x = (case x of None \<Rightarrow> [] | Some v \<Rightarrow> [(k, v)])"

definition stringArray :: "string list \<Rightarrow> jsval" where
  "stringArray xs = JArr (map JStr xs)"

definition progressObject :: "ProgressInfo \<Rightarrow> jsval" where
  "progressObject p =
     JObj ([(''testsWritten'', JNum (pi_testsWritten p)),
            (''testsPass'', JNum (pi_testsPass p)),
            (''implementationFiles'', stringArray (pi_implementationFiles p))] @
           optField ''coveragePercentage'' (map_option JNum (pi_coveragePercentage p)))"

definition featureObject :: "Feature \<Rightarrow> jsval" where
  \<comment> \<open>the run-time object of a typed feature record\<close>
  "featureObject f =
     JObj ([(''id'', JStr (f_id f)),
            (''projectId'', JStr (f_projectId f)),
            (''name'', JStr (f_name f)),
            (''description'', JStr (f_description f)),
            (''status'', JStr (statusName (f_status f))),
            (''priority'', JStr (priorityName (f_priority f))),
            (''acceptanceCriteria'', stringArray (f_acceptanceCriteria f)),
            (''createdAt'', JDate (f_createdAt f)),
            (''updatedAt'', JDate (f_updatedAt f))] @
           optField ''progress'' (map_option progressObject (f_progress f)) @
           optField ''tags'' (map_option stringArray (f_tags f)) @
           optField ''estimatedHours'' (map_option JNum (f_estimatedHours f)) @
           optField ''actualHours'' (map_option JNum (f_actualHours f)) @
           optField ''assignee'' (map_option JStr (f_assignee f)))"

subsection \<open>Feature management service\<close>

record progressPatch =
  \<comment> \<open>\<open>Partial<ProgressInfo>\<close>\<close>
  pp_testsWritten :: "rat option"
  pp_testsPass :: "rat option"
  pp_implementationFiles :: "string list option"
  pp_coveragePercentage :: "rat option"

record UpdateFeatureStatusParams =
  up_featureId :: string
  up_status :: FeatureStatus
  up_progress :: "progressPatch option"
  up_notes :: "string option"

definition defaultProgress :: jsval where
  "defaultProgress = JObj [(''testsWritten'', JNum 0), (''testsPass'', JNum 0),
     (''implementationFiles'', JArr [])]"

definition orElse :: "jsval option \<Rightarrow> jsval option \<Rightarrow> jsval option" where
  \<comment> \<open>\<open>a ?? b\<close> for a typed \<open>a\<close> that is a value or \<open>undefined\<close>\<close>
  "orElse a b = (case a of Some v \<Rightarrow> Some v | None \<Rightarrow> b)"

definition mergeProgress :: "jsval \<Rightarrow> progressPatch \<Rightarrow> jsval" where
  "mergeProgress existingFeature patch =
     (let existingProgress =
            (case getProp existingFeature ''progress'' of
               Some v \<Rightarrow> if truthy (Some v) then v else defaultProgress
             | None \<Rightarrow> defaultProgress)
      in JObj (optField ''testsWritten''
                 (orElse (map_option JNum (pp_testsWritten patch))
                    (getProp existingProgress ''testsWritten'')) @
               optField ''testsPass''
                 (orElse (map_option JNum (pp_testsPass patch))
                    (getProp existingProgress ''testsPass'')) @
               optField ''implementationFiles''
                 (orElse (map_option stringArray (pp_implementationFiles patch))
                    (getProp existingProgress ''implementationFiles'')) @
               optField ''coveragePercentage''
                 (orElse (map_option JNum (pp_coveragePercentage patch))
                    (getProp existingProgress ''coveragePercentage''))))"

definition updatedFeature :: "int \<Rightarrow> jsval \<Rightarrow> UpdateFeatureStatusParams \<Rightarrow> jsval" where
  \<comment> \<open>the object \<open>{...existingFeature, status, updatedAt}\<close>, with \<open>progress\<close> replaced when the
      parameters carry one\<close>
  "updatedFeature now existingFeature params =
     (let base = setProp ''updatedAt'' (JDate (Some now))
                   (setProp ''status'' (JStr (statusName (up_status params)))
                      (objectProps existingFeature))
      in case up_progress params of
           None \<Rightarrow> JObj base
         | Some patch \<Rightarrow> JObj (setProp ''progress'' (mergeProgress existingFeature patch) base))"

definition updateFeatureStatus ::
  "dateCodec \<Rightarrow> int \<Rightarrow> fileSystem \<Rightarrow> UpdateFeatureStatusParams \<Rightarrow> (error + jsval) \<times> fileSystem" where
  \<comment> \<open>\<open>FeatureManagementService.updateFeatureStatus\<close>: the returned feature or the raised
      error, and the file system afterwards\<close>
  "updateFeatureStatus codec now fs params =
     (case loadFeature codec fs (up_featureId params) of
        Inl e \<Rightarrow> (Inl e, fs)
      | Inr None \<Rightarrow> (Inl (FeatureNotFound (up_featureId params)), fs)
      | Inr (Some existingFeature) \<Rightarrow>
          (let updated = updatedFeature now existingFeature params
           in case saveFeature codec fs updated of
                (Inl e, fs') \<Rightarrow> (Inl e, fs')
              | (Inr u, fs') \<Rightarrow> (Inr updated, fs')))"

subsection \<open>Stores written by the service\<close>

definition objectLines :: "jsonl option \<Rightarrow> bool" where
  \<comment> \<open>every line that parses is a JSON object, as every line the service writes is\<close>
  "objectLines file =
     (case file of
        None \<Rightarrow> True
      | Some ls \<Rightarrow>
          list_all (\<lambda>l. case l of None \<Rightarrow> True | Some (JObj kvs) \<Rightarrow> True | Some _ \<Rightarrow> False) ls)"

definition storeWellFormed :: "fileSystem \<Rightarrow> bool" where
  "storeWellFormed fs = (\<forall>p. objectLines (fs_features fs p) \<and> objectLines (fs_sessions fs p))"

definition isObject :: "jsval \<Rightarrow> bool" where
  "isObject v = (case v of JObj kvs \<Rightarrow> True | _ \<Rightarrow> False)"

subsection \<open>An example codec and an example feature\<close>

definition showInt :: "int \<Rightarrow> string" where
  "showInt t = (if t < 0 then ''-'' @ showNat (nat (- t)) else showNat (nat t))"

definition readDecimal :: "string \<Rightarrow> nat option" where
  "readDecimal ds =
     (if ds \<noteq> [] \<and> list_all (isDigitIn 10) ds then Some (digitsValue 10 ds) else None)"

definition readInt :: "string \<Rightarrow> int option" where
  "readInt s =
     (case s of
        [] \<Rightarrow> None
      | c # cs \<Rightarrow>
          if c = CHR ''-'' then map_option (\<lambda>n. - int n) (readDecimal cs)
          else map_option int (readDecimal (c # cs)))"

definition epochCodec :: dateCodec where
  \<comment> \<open>a codec that meets the contract: a date is written as its time value in decimal\<close>
  "epochCodec = \<lparr>toISOString = showInt, parseDate = readInt\<rparr>"

definition loginFeature :: Feature where
  \<comment> \<open>the feature of the repository's storage tests; its dates are 2024-01-01T10:00:00Z\<close>
  "loginFeature =
     \<lparr>f_id = ''feature-123'', f_projectId = ''test-project-123'',
      f_name = ''User Authentication'', f_description = ''Implement user login'',
      f_status = IN_PROGRESS, f_priority = HIGH, f_acceptanceCriteria = [''User can login''],
      f_createdAt = Some 1704103200000, f_updatedAt = Some 1704103200000,
      f_progress = None, f_tags = None, f_estimatedHours = None, f_actualHours = None,
      f_assignee = None\<rparr>"

definition loginStore :: fileSystem where
  \<comment> \<open>the empty store after \<open>loginFeature\<close> has been saved\<close>
  "loginStore = snd (saveFeature epochCodec emptyStore (featureObject loginFeature))"

definition stableProps :: "dateCodec \<Rightarrow> (string \<times> jsval) list \<Rightarrow> bool" where
  \<comment> \<open>every property comes back unchanged from a written line\<close>
  "stableProps codec kvs =
     list_all (\<lambda>kv. restoreField (parseDate codec) (fst kv) (toJSON (toISOString codec) (snd kv))
         (restoreDates (parseDate codec) (toJSON (toISOString codec) (snd kv))) = snd kv) kvs"

definition plainValue :: "jsval \<Rightarrow> bool" where
  \<comment> \<open>a value that a written line returns unchanged, whatever the codec\<close>
  "plainValue v = (\<forall>rd fmt. restoreDates rd (toJSON fmt v) = v)"

definition missingParams :: UpdateFeatureStatusParams where
  "missingParams = \<lparr>up_featureId = ''non-existent-feature'', up_status = IN_PROGRESS,
     up_progress = None, up_notes = None\<rparr>"

definition completeParams :: UpdateFeatureStatusParams where
  "completeParams = \<lparr>up_featureId = ''feature-123'', up_status = COMPLETED,
     up_progress = Some \<lparr>pp_testsWritten = Some 5, pp_testsPass = Some 3,
       pp_implementationFiles = Some [''auth.service.ts''], pp_coveragePercentage = None\<rparr>,
     up_notes = None\<rparr>"

subsection \<open>Records that a line of text returns unchanged\<close>

definition restorableField :: "string \<Rightarrow> jsval \<Rightarrow> bool \<Rightarrow> bool" where
  \<comment> \<open>the value \<open>v\<close> of the property \<open>k\<close> of an object: a date is valid and \<open>k\<close> is one of the
      date field names; a string is empty or \<open>k\<close> is none of them; for any other value, \<open>r\<close>
      decides\<close>
  "restorableField k v r =
     (case v of
        JDate d \<Rightarrow> k \<in> set dateFields \<and> d \<noteq> None
      | JStr s \<Rightarrow> \<not> (k \<in> set dateFields \<and> s \<noteq> [])
      | _ \<Rightarrow> r)"

fun restorable :: "jsval \<Rightarrow> bool" where
  \<comment> \<open>at every depth of the value: every date is valid and is the value of a property
      with a date field name, no other string than the empty one is the value of such a
      property, and every number is finite\<close>
  "restorable (JObj kvs) = list_all (\<lambda>(k, v). restorableField k v (restorable v)) kvs"
| "restorable (JArr vs) = list_all restorable vs"
| "restorable (JDate d) = False"
| "restorable (JInf b) = False"
| "restorable JNaN = False"
| "restorable v = True"

definition reviewedFeature :: jsval where
  \<comment> \<open>\<open>loginFeature\<close> with a further property: an object that holds dates under the four
      other date field names, two of them in an object of an array\<close>
  "reviewedFeature =
     JObj (objectProps (featureObject loginFeature) @
       [(''review'',
         JObj [(''startedAt'', JDate (Some 1704106800000)),
               (''completedAt'', JDate (Some 1704110400000)),
               (''files'',
                JArr [JObj [(''path'', JStr ''auth.service.ts''),
                            (''lastModified'', JDate (Some 1704108000000)),
                            (''lastExecutedAt'', JDate (Some 1704109000000))]])])])"

definition dueSoonFeature :: jsval where
  \<comment> \<open>\<open>loginFeature\<close> with a further property: a string under a date field name\<close>
  "dueSoonFeature =
     JObj (objectProps (featureObject loginFeature) @ [(''completedAt'', JStr ''soon'')])"

definition openEndedFeature :: jsval where
  \<comment> \<open>\<open>loginFeature\<close> with an infinite estimate\<close>
  "openEndedFeature =
     JObj (objectProps (featureObject loginFeature) @ [(''estimatedHours'', JInf True)])"

subsection \<open>TDD sessions\<close>

definition saveTDDSession :: "dateCodec \<Rightarrow> fileSystem \<Rightarrow> jsval \<Rightarrow> (error + unit) \<times> fileSystem" where
  "saveTDDSession codec fs session =
     (if \<not> TDDSessionSchema session then (Inl InvalidTDDSessionData, fs)
      else
        (case getProp session ''projectId'' of
           Some (JStr projectId) \<Rightarrow>
             (let fs1 = ensureProjectDirectory fs projectId
              in (Inr (),
                  fs1\<lparr>fs_sessions := (fs_sessions fs1)
                        (projectId := appendToJsonlFile codec (fs_sessions fs1 projectId) session)\<rparr>))
         | _ \<Rightarrow> (Inl InvalidTDDSessionData, fs)))"

fun updateTDDSessionStageIn ::
  "dateCodec \<Rightarrow> int \<Rightarrow> fileSystem \<Rightarrow> string \<Rightarrow> TDDStage \<Rightarrow> string list \<Rightarrow>
     (error + bool) \<times> fileSystem" where
  "updateTDDSessionStageIn codec now fs sid stage [] = (Inr False, fs)"
| "updateTDDSessionStageIn codec now fs sid stage (projectId # rest) =
     (case findById sid (readJsonlFile codec (fs_sessions fs projectId)) of
        Inl e \<Rightarrow> (Inl e, fs)
      | Inr None \<Rightarrow> updateTDDSessionStageIn codec now fs sid stage rest
      | Inr (Some (before, session, after)) \<Rightarrow>
          (let session' = JObj (setProp ''updatedAt'' (JDate (Some now))
                                 (setProp ''stage'' (JStr (stageName stage))
                                    (objectProps session)))
           in (Inr True,
               fs\<lparr>fs_sessions := (fs_sessions fs)
                     (projectId := writeJsonlFile codec (before @ [session'] @ after))\<rparr>)))"

definition updateTDDSessionStage ::
  "dateCodec \<Rightarrow> int \<Rightarrow> fileSystem \<Rightarrow> string \<Rightarrow> TDDStage \<Rightarrow> (error + bool) \<times> fileSystem" where
  \<comment> \<open>\<open>StorageService.updateTDDSessionStage\<close>\<close>
  "updateTDDSessionStage codec now fs sid stage =
     updateTDDSessionStageIn codec now fs sid stage (listProjects fs)"

section \<open>Simplified tool handler\<close>

text \<open>
  The handlers declare the arguments of a tool call as \<open>any\<close>: they are a run-time value,
  or \<open>undefined\<close> (\<open>None\<close>) when the request carries none. The clock is read once per
  call.
\<close>

record stringConversion =
  \<comment> \<open>the engine's conversions that a template literal applies to a number and to a date:
      \<open>Number.prototype.toString\<close> and \<open>Date.prototype.toString\<close>\<close>
  numberToString :: "rat \<Rightarrow> string"
  dateToString :: "int option \<Rightarrow> string"

fun toText :: "stringConversion \<Rightarrow> jsval \<Rightarrow> error + string"
  and elementTexts :: "stringConversion \<Rightarrow> jsval list \<Rightarrow> error + string list" where
  \<comment> \<open>the string that a template literal makes of a value. An array joins the strings of
      its elements, \<open>null\<close> giving the empty string; an object is converted by the inherited
      \<open>toString\<close>, unless a property of its own hides it: no property of these values is a
      function, so the conversion then raises a type error\<close>
  "toText conv JNull = Inr ''null''"
| "toText conv (JBool b) = Inr (if b then ''true'' else ''false'')"
| "toText conv (JNum n) = Inr (numberToString conv n)"
| "toText conv (JInf b) = Inr (if b then ''Infinity'' else ''-Infinity'')"
| "toText conv JNaN = Inr ''NaN''"
| "toText conv (JStr s) = Inr s"
| "toText conv (JDate d) = Inr (dateToString conv d)"
| "toText conv (JArr vs) =
     (case elementTexts conv vs of Inl e \<Rightarrow> Inl e | Inr ts \<Rightarrow> Inr (join ts '',''))"
| "toText conv (JObj kvs) =
     (if map_of kvs ''toString'' = None then Inr ''[object Object]'' else Inl NotPrimitive)"
| "elementTexts conv [] = Inr []"
| "elementTexts conv (v # vs) =
     (case (if v = JNull then Inr [] else toText conv v) of
        Inl e \<Rightarrow> Inl e
      | Inr t \<Rightarrow> (case elementTexts conv vs of Inl e \<Rightarrow> Inl e | Inr ts \<Rightarrow> Inr (t # ts)))"

definition templateText :: "stringConversion \<Rightarrow> jsval option \<Rightarrow> error + string" where
  \<comment> \<open>\<open>`${x}`\<close>\<close>
  "templateText conv x = (case x of None \<Rightarrow> Inr ''undefined'' | Some v \<Rightarrow> toText conv v)"

definition valueOr :: "jsval option \<Rightarrow> jsval \<Rightarrow> jsval" where
  \<comment> \<open>\<open>x || d\<close>\<close>
  "valueOr x d = (case x of None \<Rightarrow> d | Some v \<Rightarrow> if truthy (Some v) then v else d)"

record CallToolResult =
  \<comment> \<open>\<open>ct_isError\<close> is false when the result carries no \<open>isError\<close> flag; \<open>ct_text\<close> is the
      text of its one content item\<close>
  ct_isError :: bool
  ct_text :: string

datatype SupportedLocale = zh | en

record handlerState =
  currentSessionId :: "string option"
  hs_locale :: SupportedLocale
  hs_store :: fileSystem

definition present :: "string option \<Rightarrow> bool" where
  \<comment> \<open>truthiness of an optional string: absent and empty are both falsy\<close>
  "present x = (case x of None \<Rightarrow> False | Some s \<Rightarrow> s \<noteq> [])"

definition createSuccessResult :: "string \<Rightarrow> CallToolResult" where
  "createSuccessResult message = \<lparr>ct_isError = False, ct_text = message\<rparr>"

definition createErrorResult :: "string \<Rightarrow> CallToolResult" where
  "createErrorResult message = \<lparr>ct_isError = True, ct_text = message\<rparr>"

definition invalidParamsMessage :: "SupportedLocale \<Rightarrow> string" where
  \<comment> \<open>the message \<open>error.invalid_params\<close> of the locale's dictionary\<close>
  "invalidParamsMessage locale =
     (case locale of
        zh \<Rightarrow> [CHR 0xE8, CHR 0xBE, CHR 0x93, CHR 0xE5, CHR 0x85, CHR 0xA5, CHR 0xE5, CHR 0x8F,
               CHR 0x82, CHR 0xE6, CHR 0x95, CHR 0xB0, CHR 0xE9, CHR 0xAA, CHR 0x8C, CHR 0xE8,
               CHR 0xAF, CHR 0x81, CHR 0xE5, CHR 0xA4, CHR 0xB1, CHR 0xE8, CHR 0xB4, CHR 0xA5]
      | en \<Rightarrow> ''Input parameter validation failed'')"

definition okMark :: string where
  \<comment> \<open>U+2705 in UTF-8\<close>
  "okMark = [CHR 0xE2, CHR 0x9C, CHR 0x85]"

definition zhGenerateTests :: string where
  \<comment> \<open>the UTF-8 bytes of the Chinese for: generate test cases\<close>
  "zhGenerateTests = [CHR 0xE7, CHR 0x94, CHR 0x9F, CHR 0xE6, CHR 0x88, CHR 0x90, CHR 0xE6, CHR 0xB5,
     CHR 0x8B, CHR 0xE8, CHR 0xAF, CHR 0x95, CHR 0xE7, CHR 0x94, CHR 0xA8, CHR 0xE4, CHR 0xBE, CHR 0x8B]"

definition zhMinimalImplementation :: string where
  \<comment> \<open>generate the minimal implementation\<close>
  "zhMinimalImplementation = [CHR 0xE7, CHR 0x94, CHR 0x9F, CHR 0xE6, CHR 0x88, CHR 0x90, CHR 0xE6,
     CHR 0x9C, CHR 0x80, CHR 0xE5, CHR 0xB0, CHR 0x8F, CHR 0xE5, CHR 0xAE, CHR 0x9E, CHR 0xE7, CHR 0x8E,
     CHR 0xB0]"

definition zhRunTests :: string where
  \<comment> \<open>run the tests\<close>
  "zhRunTests = [CHR 0xE8, CHR 0xBF, CHR 0x90, CHR 0xE8, CHR 0xA1, CHR 0x8C, CHR 0xE6, CHR 0xB5,
     CHR 0x8B, CHR 0xE8, CHR 0xAF, CHR 0x95]"

definition zhAnalyzeCoverage :: string where
  \<comment> \<open>analyze the coverage\<close>
  "zhAnalyzeCoverage = [CHR 0xE5, CHR 0x88, CHR 0x86, CHR 0xE6, CHR 0x9E, CHR 0x90, CHR 0xE8, CHR 0xA6,
     CHR 0x86, CHR 0xE7, CHR 0x9B, CHR 0x96, CHR 0xE7, CHR 0x8E, CHR 0x87]"

definition zhSuggestRefactoring :: string where
  \<comment> \<open>provide refactoring suggestions\<close>
  "zhSuggestRefactoring = [CHR 0xE6, CHR 0x8F, CHR 0x90, CHR 0xE4, CHR 0xBE, CHR 0x9B, CHR 0xE9,
     CHR 0x87, CHR 0x8D, CHR 0xE6, CHR 0x9E, CHR 0x84, CHR 0xE5, CHR 0xBB, CHR 0xBA, CHR 0xE8, CHR 0xAE,
     CHR 0xAE]"

definition zhWorkflowDone :: string where
  \<comment> \<open>the full TDD workflow has been executed, with the colon\<close>
  "zhWorkflowDone = [CHR 0xE5, CHR 0xAE, CHR 0x8C, CHR 0xE6, CHR 0x95, CHR 0xB4] @ ''TDD'' @
     [CHR 0xE6, CHR 0xB5, CHR 0x81, CHR 0xE7, CHR 0xA8, CHR 0x8B, CHR 0xE6, CHR 0x89, CHR 0xA7, CHR 0xE8,
      CHR 0xA1, CHR 0x8C, CHR 0xE5, CHR 0xAE, CHR 0x8C, CHR 0xE6, CHR 0x88, CHR 0x90] @ '':''"

definition andThen ::
  "(error + 'a) \<times> handlerState \<Rightarrow> ('a \<Rightarrow> handlerState \<Rightarrow> (error + 'b) \<times> handlerState) \<Rightarrow>
     (error + 'b) \<times> handlerState" where
  \<comment> \<open>sequencing of two awaited steps: a raised error skips the second\<close>
  "andThen step next =
     (case step of (Inl e, st) \<Rightarrow> (Inl e, st) | (Inr x, st) \<Rightarrow> next x st)"

definition ensureActiveSession ::
  "dateCodec \<Rightarrow> int \<Rightarrow> jsval \<Rightarrow> handlerState \<Rightarrow> (error + unit) \<times> handlerState" where
  \<comment> \<open>\<open>args\<close> is not \<open>null\<close> here: the caller has read a property of it\<close>
  "ensureActiveSession codec now args st =
     (if present (currentSessionId st) then (Inr (), st)
      else
        (let sessionId = ''session-'' @ showInt now;
             developer = valueOr (getProp args ''developer'') (JStr ''unknown'');
             session = JObj [(''id'', JStr sessionId),
                             (''featureId'', valueOr (getProp args ''featureId'') (JStr ''auto-feature'')),
                             (''projectId'', JStr ''auto-project''),
                             (''developer'', developer),
                             (''stage'', JStr (stageName STAGE_RED)),
                             (''startedAt'', JDate (Some now)),
                             (''updatedAt'', JDate (Some now)),
                             (''notes'', JStr ''Auto-created session''),
                             (''cycleCount'', JNum 0)]
         in case saveTDDSession codec (hs_store st) session of
              (Inl e, fs) \<Rightarrow> (Inl e, st\<lparr>hs_store := fs\<rparr>)
            | (Inr u, fs) \<Rightarrow> (Inr (), st\<lparr>hs_store := fs, currentSessionId := Some sessionId\<rparr>)))"

definition updateSessionStage ::
  "dateCodec \<Rightarrow> int \<Rightarrow> TDDStage \<Rightarrow> handlerState \<Rightarrow> (error + unit) \<times> handlerState" where
  "updateSessionStage codec now stage st =
     (case currentSessionId st of
        None \<Rightarrow> (Inr (), st)
      | Some sid \<Rightarrow>
          if sid = [] then (Inr (), st)
          else
            (case updateTDDSessionStage codec now (hs_store st) sid stage of
               (Inl e, fs) \<Rightarrow> (Inl e, st\<lparr>hs_store := fs\<rparr>)
             | (Inr b, fs) \<Rightarrow> (Inr (), st\<lparr>hs_store := fs\<rparr>)))"

definition fullWorkflowText :: string where
  "fullWorkflowText =
     zhWorkflowDone @ newline @
     join [okMark @ '' '' @ zhGenerateTests,
           okMark @ '' '' @ zhMinimalImplementation,
           okMark @ '' '' @ zhRunTests,
           okMark @ '' '' @ zhAnalyzeCoverage,
           okMark @ '' '' @ zhSuggestRefactoring] newline"

definition executeFullTDDWorkflow ::
  "dateCodec \<Rightarrow> int \<Rightarrow> handlerState \<Rightarrow> (error + CallToolResult) \<times> handlerState" where
  "executeFullTDDWorkflow codec now st =
     andThen (updateSessionStage codec now STAGE_RED st) (\<lambda>u st1.
     andThen (updateSessionStage codec now STAGE_GREEN st1) (\<lambda>u st2.
       (Inr (createSuccessResult fullWorkflowText), st2)))"

definition invalidCommand ::
  "stringConversion \<Rightarrow> jsval option \<Rightarrow> handlerState \<Rightarrow> (error + CallToolResult) \<times> handlerState" where
  \<comment> \<open>the default branch of the three command switches\<close>
  "invalidCommand conv command st =
     (case templateText conv command of
        Inl e \<Rightarrow> (Inl e, st)
      | Inr t \<Rightarrow> (Inr (createErrorResult (''Invalid command: '' @ t)), st))"

definition handleTDDTool ::
  "dateCodec \<Rightarrow> stringConversion \<Rightarrow> int \<Rightarrow> jsval option \<Rightarrow> handlerState \<Rightarrow>
     (error + CallToolResult) \<times> handlerState" where
  "handleTDDTool codec conv now args st0 =
     (case args of
        None \<Rightarrow> (Inl (TypeErrorUndefined ''command''), st0)
      | Some JNull \<Rightarrow> (Inl (TypeError ''command''), st0)
      | Some a \<Rightarrow>
         (let command = getProp a ''command'' in
          andThen (ensureActiveSession codec now a st0) (\<lambda>u st.
            if \<not> truthy command \<and> \<not> truthy (getProp a ''requirements'')
            then (Inr (createErrorResult (invalidParamsMessage (hs_locale st))), st)
            else if command = Some (JStr ''implement'') \<and> \<not> truthy (getProp a ''testCode'')
            then (Inr (createErrorResult ''testCode is required for implement command''), st)
            else if \<not> truthy command then
              andThen (updateSessionStage codec now STAGE_RED st) (\<lambda>u st1.
              andThen (executeFullTDDWorkflow codec now st1) (\<lambda>result st2.
              andThen (updateSessionStage codec now STAGE_REFACTOR st2) (\<lambda>u st3.
                (Inr result, st3))))
            else if command = Some (JStr ''generate'') then
              (if \<not> truthy (getProp a ''requirements'')
               then (Inr (createErrorResult ''requirements is required for generate command''), st)
               else andThen (updateSessionStage codec now STAGE_RED st) (\<lambda>u st1.
                      (Inr (createSuccessResult ''Test cases generated successfully''), st1)))
            else if command = Some (JStr ''implement'') then
              andThen (updateSessionStage codec now STAGE_GREEN st) (\<lambda>u st1.
                (Inr (createSuccessResult ''Implementation code generated successfully''), st1))
            else if command = Some (JStr ''test'') then
              (Inr (createSuccessResult ''Tests executed successfully''), st)
            else if command = Some (JStr ''coverage'') then
              (Inr (createSuccessResult ''Coverage analysis completed''), st)
            else if command = Some (JStr ''refactor'') then
              andThen (updateSessionStage codec now STAGE_REFACTOR st) (\<lambda>u st1.
                (Inr (createSuccessResult ''Refactoring suggestions provided''), st1))
            else if command = Some (JStr ''validate'') then
              (Inr (createSuccessResult ''TDD cycle validation completed''), st)
            else invalidCommand conv command st)))"

definition handleFeatureTool ::
  "stringConversion \<Rightarrow> jsval option \<Rightarrow> handlerState \<Rightarrow> (error + CallToolResult) \<times> handlerState" where
  "handleFeatureTool conv args st =
     (case args of
        None \<Rightarrow> (Inl (TypeErrorUndefined ''name''), st)
      | Some JNull \<Rightarrow> (Inl (TypeError ''name''), st)
      | Some a \<Rightarrow>
         (if \<not> truthy (getProp a ''name'') \<and> \<not> truthy (getProp a ''query'')
          then (Inr (createErrorResult (invalidParamsMessage (hs_locale st))), st)
          else
            (let command = valueOr (getProp a ''command'') (JStr ''create'') in
             if command = JStr ''create'' then
               (Inr (createSuccessResult ''Feature created successfully''), st)
             else if command = JStr ''update'' then
               (Inr (createSuccessResult ''Feature updated successfully''), st)
             else if command = JStr ''link'' then
               (Inr (createSuccessResult ''Files linked to feature successfully''), st)
             else if command = JStr ''find'' then
               (Inr (createSuccessResult ''Similar features found''), st)
             else invalidCommand conv (Some command) st)))"

definition handleTrackingTool ::
  "stringConversion \<Rightarrow> jsval option \<Rightarrow> handlerState \<Rightarrow> (error + CallToolResult) \<times> handlerState" where
  "handleTrackingTool conv args st =
     (case args of
        None \<Rightarrow> (Inl (TypeErrorUndefined ''command''), st)
      | Some JNull \<Rightarrow> (Inl (TypeError ''command''), st)
      | Some a \<Rightarrow>
         (let command = valueOr (getProp a ''command'') (JStr ''register'') in
          if command = JStr ''register'' then
            (if \<not> truthy (getProp a ''featureId'') \<or> \<not> truthy (getProp a ''name'') \<or>
                \<not> truthy (getProp a ''filePath'') \<or> \<not> truthy (getProp a ''framework'')
             then (Inr (createErrorResult ''featureId, name, filePath, and framework are required''), st)
             else (Inr (createSuccessResult ''Test method registered successfully''), st))
          else if command = JStr ''result'' then
            (Inr (createSuccessResult ''Test execution result updated''), st)
          else if command = JStr ''status'' then
            (Inr (createSuccessResult ''Test method status updated''), st)
          else invalidCommand conv (Some command) st))"

definition callTool ::
  "dateCodec \<Rightarrow> stringConversion \<Rightarrow> int \<Rightarrow> handlerState \<Rightarrow> string \<Rightarrow> jsval option \<Rightarrow>
     CallToolResult \<times> handlerState" where
  \<comment> \<open>\<open>NewToolsHandler.callTool\<close>: the result of the call and the handler afterwards; an
      error raised by a tool handler becomes an error result with its message\<close>
  "callTool codec conv now st name args =
     (case (if name = ''tdd'' then handleTDDTool codec conv now args st
            else if name = ''feature'' then handleFeatureTool conv args st
            else if name = ''tracking'' then handleTrackingTool conv args st
            else (Inr (createErrorResult (''Unknown tool: '' @ name)), st)) of
        (Inl e, st') \<Rightarrow> (createErrorResult (errorMessage e), st')
      | (Inr result, st') \<Rightarrow> (result, st'))"

definition sessionFilesWellFormed :: "fileSystem \<Rightarrow> bool" where
  \<comment> \<open>every line of a session file that parses is a JSON object\<close>
  "sessionFilesWellFormed fs = (\<forall>p. objectLines (fs_sessions fs p))"

definition decimalConversion :: stringConversion where
  \<comment> \<open>conversions for the examples: an integer in decimal, a date by its time value\<close>
  "decimalConversion =
     \<lparr>numberToString = (\<lambda>n. showInt \<lfloor>n\<rfloor>),
      dateToString = (\<lambda>d. case d of None \<Rightarrow> ''Invalid Date'' | Some t \<Rightarrow> showInt t)\<rparr>"

definition freshHandler :: handlerState where
  \<comment> \<open>a handler as constructed, with English as the locale, over an empty store\<close>
  "freshHandler = \<lparr>currentSessionId = None, hs_locale = en, hs_store = emptyStore\<rparr>"

definition onlyRequirements :: "string \<Rightarrow> jsval option" where
  \<comment> \<open>the arguments \<open>{requirements: r}\<close>\<close>
  "onlyRequirements r = Some (JObj [(''requirements'', JStr r)])"

definition numericDeveloper :: "jsval option" where
  \<comment> \<open>the arguments \<open>{requirements: 'x', developer: 42}\<close>\<close>
  "numericDeveloper = Some (JObj [(''requirements'', JStr ''x''), (''developer'', JNum 42)])"

section \<open>Verified properties\<close>

subsection \<open>Coverage percentages\<close>

lemma nearestDouble_tenth: "nearestDouble (1 / 10) = 3602879701896397 / 36028797018963968"
  by code_simp

lemma calculatePercentage_in_doubles:
  "calculatePercentage 23 160 = nearestDouble (1437 / 100) \<and>
   calculatePercentage 23 160 < 1438 / 100"
  by code_simp

lemma percentRounded_in_doubles: "percentRounded (Num 23) (Num 40) = Num 57"
  by code_simp

text \<open>
  Claim C7. \<open>calculatePercentage(8, 10)\<close> is 80, and a total of zero is guarded: the
  result is 0 for every covered value, so no division by zero takes place.
\<close>

theorem C7_calculatePercentage:
  "calculatePercentage 8 10 = 80 \<and> (\<forall>covered. calculatePercentage covered 0 = 0)"
proof
  show "calculatePercentage 8 10 = 80"
    by code_simp
  show "\<forall>covered. calculatePercentage covered 0 = 0"
    by (simp add: calculatePercentage_def)
qed

text \<open>
  Claim C6. On the LCOV record with the counters \<open>LF:10\<close>, \<open>LH:8\<close>, \<open>FNF:1\<close>,
  \<open>FNH:1\<close>, \<open>BRF:4\<close>, \<open>BRH:3\<close>, \<open>parseLcovCoverage\<close> reports 80 for lines, 100 for
  functions and 75 for branches.
\<close>

theorem C6_parseLcovCoverage:
  "cov_lines (parseLcovCoverage lcovExample) = Num 80 \<and>
   cov_functions (parseLcovCoverage lcovExample) = Num 100 \<and>
   cov_branches (parseLcovCoverage lcovExample) = Num 75"
  by code_simp

subsection \<open>Tool listing\<close>

text \<open>
  Claim C2. With \<open>USE_NEW_TOOLS\<close> equal to \<open>false\<close>, or unset, or anything but \<open>true\<close>,
  the \<open>tools/list\<close> handler returns the 15 legacy tool definitions; with \<open>true\<close> it returns
  the 3 definitions named \<open>tdd\<close>, \<open>feature\<close> and \<open>tracking\<close>.
\<close>

theorem C2_listTools_count:
  "length (serverListTools None) = 15 \<and>
   length (serverListTools (Some ''false'')) = 15 \<and>
   length (serverListTools v) = (if v = Some ''true'' then 3 else 15) \<and>
   map tool_name (serverListTools (Some ''true'')) = [''tdd'', ''feature'', ''tracking'']"
  by (simp add: serverListTools_def useNewTools_def NewToolsHandler_listTools_def
      toolsHandler_listTools_def TOOLS_def createTDDTool_def createFeatureTool_def
      createTrackingTool_def)

subsection \<open>Adherence score\<close>

lemma analyzeTDDAdherence_score:
  "an_score (analyzeTDDAdherence probe commits) =
     max (100
          - (if hasImplementationBeforeTests (analyzeCommitPatterns commits) then 30 else 0)
          - (if lacksTestCommits (analyzeCommitPatterns commits) then 25 else 0)
          - (if lacksRefactorCommits (analyzeCommitPatterns commits) \<and>
                hasMultipleFeatureCommits (analyzeCommitPatterns commits) then 20 else 0)) 0"
  by (simp add: analyzeTDDAdherence_def Let_def)

lemma analyzeTDDAdherence_violations:
  "map v_type (an_violations (analyzeTDDAdherence probe commits)) =
     (if hasImplementationBeforeTests (analyzeCommitPatterns commits)
      then [premature_implementation] else []) @
     (if lacksTestCommits (analyzeCommitPatterns commits) then [no_failing_test] else []) @
     (if lacksRefactorCommits (analyzeCommitPatterns commits) \<and>
         hasMultipleFeatureCommits (analyzeCommitPatterns commits)
      then [skipped_refactor] else [])"
  by (simp add: analyzeTDDAdherence_def Let_def)

text \<open>
  Claim C9. For every commit list \<open>validateCycle\<close> returns a result whose score is 100
  less 30 for premature implementation, 25 for the absence of test commits and 20 for
  skipped refactoring, clamped below at 0; the score lies between 0 and 100, the reported
  violations are exactly the detected categories, and \<open>isValid\<close> holds exactly when there
  is no violation.
\<close>

theorem C9_validateCycle_score:
  "\<exists>r. validateCycle probe1 probe2 recent gitHistory = Inr r \<and>
     score r =
       max (100
          - (if hasImplementationBeforeTests
                 (analyzeCommitPatterns (commitsToAnalyze recent gitHistory)) then 30 else 0)
          - (if lacksTestCommits
                 (analyzeCommitPatterns (commitsToAnalyze recent gitHistory)) then 25 else 0)
          - (if lacksRefactorCommits
                 (analyzeCommitPatterns (commitsToAnalyze recent gitHistory)) \<and>
                hasMultipleFeatureCommits
                 (analyzeCommitPatterns (commitsToAnalyze recent gitHistory)) then 20 else 0)) 0 \<and>
     map v_type (violations r) =
       (if hasImplementationBeforeTests
             (analyzeCommitPatterns (commitsToAnalyze recent gitHistory))
        then [premature_implementation] else []) @
       (if lacksTestCommits
             (analyzeCommitPatterns (commitsToAnalyze recent gitHistory))
        then [no_failing_test] else []) @
       (if lacksRefactorCommits
             (analyzeCommitPatterns (commitsToAnalyze recent gitHistory)) \<and>
           hasMultipleFeatureCommits
             (analyzeCommitPatterns (commitsToAnalyze recent gitHistory))
        then [skipped_refactor] else []) \<and>
     0 \<le> score r \<and> score r \<le> 100 \<and>
     isValid r = (violations r = [])"
proof -
  let ?a = "analyzeTDDAdherence probe2 (commitsToAnalyze recent gitHistory)"
  let ?r = "\<lparr>isValid = (length (an_violations ?a) = 0),
              currentState = determineCurrentState probe1,
              violations = an_violations ?a,
              suggestions = an_suggestions ?a,
              score = an_score ?a\<rparr>"
  have run: "validateCycle probe1 probe2 recent gitHistory = Inr ?r"
    by (simp add: validateCycle_def Let_def)
  have sc: "score ?r = an_score ?a" and vs: "violations ?r = an_violations ?a"
    by simp_all
  have range: "0 \<le> an_score ?a \<and> an_score ?a \<le> 100"
    unfolding analyzeTDDAdherence_score by simp
  show ?thesis
    using run range
    by (intro exI [of _ ?r])
       (simp add: analyzeTDDAdherence_score analyzeTDDAdherence_violations)
qed

subsection \<open>Failures of the test subprocess\<close>

text \<open>
  Claim C8. Whenever the test subprocess that \<open>runTests\<close> spawns fails, whatever the kind
  of failure (a failing command, a missing runner binary or a timeout), \<open>runTests\<close> does not
  raise: it returns one suite with one failed test, and the overall totals are total 1,
  passed 0, failed 1, skipped 0.
\<close>

theorem C8_runTests_subprocess_failure:
  assumes "getFrameworkConfig (testFramework params) = Some framework"
    and "env_stat env (projectPath params) = Directory"
    and "env_exec env (buildTestCommand framework params) (projectPath params)
           (execTimeout params) = Rejected err"
  shows "\<exists>r. runTests env params = Inr r \<and>
           sum_total (res_overall r) = 1 \<and> sum_passed (res_overall r) = 0 \<and>
           sum_failed (res_overall r) = 1 \<and> sum_skipped (res_overall r) = 0 \<and>
           length (res_suites r) = 1 \<and>
           map tr_status (concat (map suite_tests (res_suites r))) = [st_failed]"
  using assms
  by (simp add: runTests_def validateProjectPath_def handleTestError_def Let_def)

theorem C8_runTests_subprocess_failure_witness:
  "\<exists>r. runTests timedOutEnv jestParams = Inr r \<and>
           sum_total (res_overall r) = 1 \<and> sum_passed (res_overall r) = 0 \<and>
           sum_failed (res_overall r) = 1 \<and> sum_skipped (res_overall r) = 0 \<and>
           length (res_suites r) = 1 \<and>
           map tr_status (concat (map suite_tests (res_suites r))) = [st_failed]"
proof -
  have fw: "getFrameworkConfig (testFramework jestParams) =
      Some (''jest'', \<lparr>fw_name = ''Jest'', fw_language = TYPESCRIPT, fw_run = ''jest'',
        fw_coverage = Some ''jest --coverage''\<rparr>)"
    by (simp add: getFrameworkConfig_def SUPPORTED_FRAMEWORKS_def jestParams_def
        toLowerCase_def lowerChar_def)
  have dir: "env_stat timedOutEnv (projectPath jestParams) = Directory"
    by (simp add: timedOutEnv_def)
  show ?thesis
    by (rule C8_runTests_subprocess_failure [OF fw dir]) (simp add: timedOutEnv_def)
qed

subsection \<open>Edge cases for numbers\<close>

lemma collectTests_member:
  "collectTests f cs = Inr ts \<Longrightarrow> c \<in> set cs \<Longrightarrow> \<exists>t \<in> set ts. f c = Inr t"
proof (induction cs arbitrary: ts)
  case Nil
  then show ?case by simp
next
  case (Cons a cs)
  from Cons.prems(1) obtain t rest where
    a: "f a = Inr t" and rest: "collectTests f cs = Inr rest" and ts: "ts = t # rest"
    by (auto split: sum.splits)
  show ?case
  proof (cases "c = a")
    case True
    with a ts show ?thesis by auto
  next
    case False
    with Cons.prems(2) have "c \<in> set cs" by simp
    from Cons.IH [OF rest this] ts show ?thesis by auto
  qed
qed

lemma behaviorTests_edge_tests:
  "behaviorTests params bs = Inr ts \<Longrightarrow> b \<in> set bs \<Longrightarrow>
     \<exists>es. generateEdgeCaseTests b params = Inr es \<and> set es \<subseteq> set ts"
proof (induction bs arbitrary: ts)
  case Nil
  then show ?case by simp
next
  case (Cons a bs)
  from Cons.prems(1) obtain happy edges errors others where
    e: "generateEdgeCaseTests a params = Inr edges" and
    r: "behaviorTests params bs = Inr others" and
    ts: "ts = happy # edges @ errors @ others"
    by (auto split: sum.splits)
  show ?case
  proof (cases "b = a")
    case True
    with e ts show ?thesis by auto
  next
    case False
    with Cons.prems(2) have "b \<in> set bs" by simp
    from Cons.IH [OF r this] ts show ?thesis by auto
  qed
qed

lemma caseTest_fields:
  "caseTest kind label b params c = Inr t \<Longrightarrow>
     gt_description t = label @ c \<and> gt_name t = generateTestName b kind (Some c)"
  by (auto simp: caseTest_def Let_def split: sum.splits)

lemma identifyEdgeCases_number:
  "js_includes (toLowerCase b) ''number'' \<Longrightarrow>
     take 3 (identifyEdgeCases b) = [''zero value'', ''negative value'', ''maximum value'']"
  by (simp add: identifyEdgeCases_def Let_def)

lemma parseRequirements_whole:
  "filter isBehavior (map trim (sentences reqs)) = [] \<Longrightarrow> parseRequirements reqs = [reqs]"
  by (simp add: parseRequirements_def)

lemma parseRequirements_kept:
  "s \<in> set (sentences reqs) \<Longrightarrow> isBehavior (trim s) \<Longrightarrow> trim s \<in> set (parseRequirements reqs)"
  by (auto simp: parseRequirements_def Let_def filter_empty_conv)

text \<open>
  Claim C5, as amended. The generator looks for the keyword in each behavior that
  \<open>parseRequirements\<close> keeps, not in the requirement string: a sentence is kept when it
  contains should, must, when or given, and the whole requirement is the one behavior when
  no sentence does. For every behavior kept from the requirement that contains \<open>number\<close>
  in any letter case, a successful \<open>generateTests\<close> returns edge-case tests for
  \<open>zero value\<close>, \<open>negative value\<close> and \<open>maximum value\<close>.
\<close>

theorem C5_number_edge_cases:
  assumes "generateTests now params = Inr out"
    and "behavior \<in> set (parseRequirements (tg_requirements params))"
    and "js_includes (toLowerCase behavior) ''number''"
  shows "(\<exists>t \<in> set (out_tests out).
            gt_description t = ''Test edge case: zero value'' \<and>
            gt_name t = generateTestName behavior edge_case (Some ''zero value'')) \<and>
         (\<exists>t \<in> set (out_tests out).
            gt_description t = ''Test edge case: negative value'' \<and>
            gt_name t = generateTestName behavior edge_case (Some ''negative value'')) \<and>
         (\<exists>t \<in> set (out_tests out).
            gt_description t = ''Test edge case: maximum value'' \<and>
            gt_name t = generateTestName behavior edge_case (Some ''maximum value''))"
proof -
  from assms(1) have tests: "generateTestCases params = Inr (out_tests out)"
    by (auto simp: generateTests_def split: if_splits sum.splits)
  then have "behaviorTests params (parseRequirements (tg_requirements params)) = Inr (out_tests out)"
    by (simp add: generateTestCases_def)
  from behaviorTests_edge_tests [OF this assms(2)] obtain es where
    es: "generateEdgeCaseTests behavior params = Inr es" and sub: "set es \<subseteq> set (out_tests out)"
    by blast
  have cases3: "set [''zero value'', ''negative value'', ''maximum value'']
      \<subseteq> set (identifyEdgeCases behavior)"
    using identifyEdgeCases_number [OF assms(3)] set_take_subset [of 3 "identifyEdgeCases behavior"]
    by simp
  have one: "\<exists>t \<in> set (out_tests out).
      gt_description t = ''Test edge case: '' @ c \<and>
      gt_name t = generateTestName behavior edge_case (Some c)"
    if "c \<in> set [''zero value'', ''negative value'', ''maximum value'']" for c
  proof -
    from that cases3 have "c \<in> set (identifyEdgeCases behavior)" by blast
    with es obtain t where "t \<in> set es"
      and "caseTest edge_case ''Test edge case: '' behavior params c = Inr t"
      unfolding generateEdgeCaseTests_def by (blast dest: collectTests_member)
    with sub caseTest_fields show ?thesis by blast
  qed
  show ?thesis
    using one [of "''zero value''"] one [of "''negative value''"] one [of "''maximum value''"]
    by simp
qed

theorem C5_number_edge_cases_witness:
  "(\<exists>t \<in> set (out_tests (projr (generateTests 0 numberBehaviorExample))).
      gt_description t = ''Test edge case: zero value'' \<and>
      gt_name t = ''test_it_should_parse_a_number_zero_value'') \<and>
   (\<exists>t \<in> set (out_tests (projr (generateTests 0 numberBehaviorExample))).
      gt_description t = ''Test edge case: negative value'' \<and>
      gt_name t = ''test_it_should_parse_a_number_negative_value'') \<and>
   (\<exists>t \<in> set (out_tests (projr (generateTests 0 numberBehaviorExample))).
      gt_description t = ''Test edge case: maximum value'' \<and>
      gt_name t = ''test_it_should_parse_a_number_maximum_value'')"
proof -
  have "\<not> isl (generateTests 0 numberBehaviorExample)"
    by code_simp
  then have run: "generateTests 0 numberBehaviorExample =
      Inr (projr (generateTests 0 numberBehaviorExample))"
    by simp
  have kept: "''It should parse a number''
      \<in> set (parseRequirements (tg_requirements numberBehaviorExample))"
    by code_simp
  have num: "js_includes (toLowerCase ''It should parse a number'') ''number''"
    by code_simp
  have n1: "generateTestName ''It should parse a number'' edge_case (Some ''zero value'')
      = ''test_it_should_parse_a_number_zero_value''"
    by code_simp
  have n2: "generateTestName ''It should parse a number'' edge_case (Some ''negative value'')
      = ''test_it_should_parse_a_number_negative_value''"
    by code_simp
  have n3: "generateTestName ''It should parse a number'' edge_case (Some ''maximum value'')
      = ''test_it_should_parse_a_number_maximum_value''"
    by code_simp
  show ?thesis
    using C5_number_edge_cases [OF run kept num] unfolding n1 n2 n3 .
qed

text \<open>
  The claim as stated fails: the requirement \<open>Parse a number. It should work\<close> contains
  \<open>number\<close>, yet only its second sentence is kept as a behavior, and the generated edge
  cases are the generic ones.
\<close>

theorem C5_number_counterexample:
  "js_includes (tg_requirements numberExample) ''number'' \<and>
   map_sum id (map gt_description \<circ> out_tests) (generateTests 0 numberExample) =
     Inr [''Test the happy path for: It should work'',
          ''Test edge case: boundary condition'',
          ''Test edge case: extreme value'',
          ''Test error case: null input'',
          ''Test error case: invalid input'',
          ''Test error case: unauthorized access'']"
  by code_simp

subsection \<open>The example codec meets the contract\<close>

lemma digitValue_digit: "d < 10 \<Longrightarrow> digitValue (char_of (48 + d :: nat)) = Some d"
  by (simp add: digitValue_def Let_def)

lemma isDigit_digit: "d < 10 \<Longrightarrow> isDigitIn 10 (char_of (48 + d :: nat))"
  by (simp add: isDigitIn_def digitValue_digit)

lemma digit_not_minus: "d < 10 \<Longrightarrow> char_of (48 + d :: nat) \<noteq> CHR ''-''"
proof
  assume d: "d < 10" and "char_of (48 + d) = CHR ''-''"
  then have "(of_char (char_of (48 + d)) :: nat) = of_char CHR ''-''" by simp
  with d show False by simp
qed

lemma digitsValue_snoc:
  "digitsValue r (ds @ [c]) = digitsValue r ds * r + (case digitValue c of None \<Rightarrow> 0 | Some d \<Rightarrow> d)"
  by (simp add: digitsValue_def)

lemma digitsValue_single:
  "digitsValue r [c] = (case digitValue c of None \<Rightarrow> 0 | Some d \<Rightarrow> d)"
  by (simp add: digitsValue_def)

lemma showDigits_props:
  "n \<le> k \<Longrightarrow> showDigits (Suc k) n \<noteq> [] \<and> list_all (isDigitIn 10) (showDigits (Suc k) n) \<and>
     digitsValue 10 (showDigits (Suc k) n) = n \<and> hd (showDigits (Suc k) n) \<noteq> CHR ''-''"
proof (induction k arbitrary: n)
  case 0
  then show ?case
    using isDigit_digit [of 0] digitValue_digit [of 0] digit_not_minus [of 0]
    by (simp add: digitsValue_single)
next
  case (Suc k)
  show ?case
  proof (cases "n < 10")
    case True
    then show ?thesis
      using isDigit_digit [of n] digitValue_digit [of n] digit_not_minus [of n]
      by (simp add: digitsValue_single)
  next
    case False
    with Suc.prems have le: "n div 10 \<le> k" by simp
    have m: "n mod 10 < 10" by simp
    from Suc.IH [OF le] False show ?thesis
      using isDigit_digit [OF m] digitValue_digit [OF m]
      by (simp add: digitsValue_snoc)
  qed
qed

lemma readDecimal_showNat: "readDecimal (showNat n) = Some n"
  using showDigits_props [of n n] by (simp add: readDecimal_def showNat_def)

lemma showNat_head: "\<exists>c cs. showNat n = c # cs \<and> c \<noteq> CHR ''-''"
  using showDigits_props [of n n] by (cases "showNat n") (auto simp: showNat_def)

lemma readInt_showInt: "readInt (showInt t) = Some t"
proof (cases "t < 0")
  case True
  then show ?thesis by (simp add: readInt_def showInt_def readDecimal_showNat)
next
  case False
  obtain c cs where s: "showNat (nat t) = c # cs" "c \<noteq> CHR ''-''"
    using showNat_head by blast
  have "readDecimal (c # cs) = Some (nat t)"
    using readDecimal_showNat [of "nat t"] s by simp
  with False s show ?thesis by (simp add: readInt_def showInt_def)
qed

lemma showInt_nonempty: "showInt t \<noteq> []"
  using showNat_head [of "nat t"] by (auto simp: showInt_def)

lemma epochCodec_contract: "dateContract epochCodec"
  by (simp add: dateContract_def epochCodec_def readInt_showInt showInt_nonempty)

subsection \<open>Reading back what was written\<close>

lemma restoreDates_object: "isObject v \<Longrightarrow> isObject (restoreDates rd v)"
  by (cases v) (simp_all add: isObject_def)

lemma map_filter_objects:
  "list_all (\<lambda>l. case l of None \<Rightarrow> True | Some (JObj kvs) \<Rightarrow> True | Some _ \<Rightarrow> False) ls \<Longrightarrow>
     list_all isObject (List.map_filter (\<lambda>l. l) ls)"
  by (induction ls) (auto simp: List.map_filter_simps isObject_def split: option.splits jsval.splits)

lemma read_objects:
  "objectLines fl \<Longrightarrow> list_all isObject (readJsonlFile codec fl)"
proof (cases fl)
  case None
  then show ?thesis by (simp add: readJsonlFile_def)
next
  case (Some ls)
  assume "objectLines fl"
  with Some have "list_all isObject (List.map_filter (\<lambda>l. l) ls)"
    by (simp add: objectLines_def map_filter_objects)
  then show ?thesis
    using Some by (simp add: readJsonlFile_def list_all_iff restoreDates_object)
qed

lemma no_null: "list_all isObject xs \<Longrightarrow> JNull \<notin> set xs"
  by (auto simp: list_all_iff isObject_def)

lemma read_append:
  "readJsonlFile codec (appendToJsonlFile codec fl item) =
     readJsonlFile codec fl @ [restoreDates (parseDate codec) (toJSON (toISOString codec) item)]"
  by (cases fl) (simp_all add: readJsonlFile_def appendToJsonlFile_def List.map_filter_def)

lemma restoreField_plain [simp]:
  "k \<notin> set dateFields \<Longrightarrow> restoreField rd k v (restoreDates rd v) = restoreDates rd v"
  by (cases v) (simp_all add: restoreField_def)

lemma restoreField_date [simp]:
  "k \<in> set dateFields \<Longrightarrow> s \<noteq> [] \<Longrightarrow> restoreField rd k (JStr s) r = JDate (rd s)"
  by (simp add: restoreField_def)

lemma stringArray_toJSON [simp]: "toJSON fmt (stringArray xs) = stringArray xs"
  by (induction xs) (simp_all add: stringArray_def)

lemma stringArray_restore [simp]: "restoreDates rd (stringArray xs) = stringArray xs"
  by (induction xs) (simp_all add: stringArray_def)

lemma progress_stable [simp]:
  "restoreDates rd (toJSON fmt (progressObject p)) = progressObject p"
  by (cases "pi_coveragePercentage p") (simp_all add: progressObject_def optField_def dateFields_def)

lemma valid_dates:
  "FeatureSchema (featureObject f) \<Longrightarrow> \<exists>a b. f_createdAt f = Some a \<and> f_updatedAt f = Some b"
  by (auto simp: FeatureSchema_def featureObject_def isValidDate_def split: option.splits jsval.splits)

lemma feature_roundtrip:
  assumes "dateContract codec" "FeatureSchema (featureObject f)"
  shows "restoreDates (parseDate codec) (toJSON (toISOString codec) (featureObject f)) = featureObject f"
proof -
  from valid_dates [OF assms(2)] obtain a b where ab: "f_createdAt f = Some a" "f_updatedAt f = Some b" by blast
  from assms(1) have c: "\<And>t. parseDate codec (toISOString codec t) = Some t" "\<And>t. toISOString codec t \<noteq> []"
    by (auto simp: dateContract_def)
  show ?thesis
    by (cases "f_progress f"; cases "f_tags f"; cases "f_estimatedHours f"; cases "f_actualHours f"; cases "f_assignee f")
      (simp_all add: featureObject_def optField_def ab c dateFields_def)
qed

lemma listFeatures_null_line:
  "listFeatures codec \<lparr>fs_projects = [p], fs_features = (\<lambda>q. Some [Some JNull]),
      fs_sessions = (\<lambda>q. None)\<rparr> p = Inl (TypeError ''projectId'')"
  by (simp add: listFeatures_def readJsonlFile_def List.map_filter_simps)

lemma featureObject_projectId: "getProp (featureObject f) ''projectId'' = Some (JStr (f_projectId f))"
  by (simp add: getProp_def featureObject_def)

lemma featureObject_id: "getProp (featureObject f) ''id'' = Some (JStr (f_id f))"
  by (simp add: getProp_def featureObject_def)

lemma features_after_ensure [simp]:
  "fs_features (ensureProjectDirectory fs p) = fs_features fs"
  "fs_sessions (ensureProjectDirectory fs p) = fs_sessions fs"
  by (simp_all add: ensureProjectDirectory_def)

lemma projects_after_ensure:
  "fs_projects (ensureProjectDirectory fs p) =
     (if p \<in> set (fs_projects fs) then fs_projects fs else fs_projects fs @ [p])"
  by (simp add: ensureProjectDirectory_def)

lemma saveFeature_ok:
  assumes "FeatureSchema v" "getProp v ''projectId'' = Some (JStr p)"
  shows "saveFeature codec fs v =
     (Inr (), (ensureProjectDirectory fs p)\<lparr>fs_features := (fs_features fs)
        (p := appendToJsonlFile codec (fs_features fs p) v)\<rparr>)"
  using assms by (simp add: saveFeature_def Let_def)

lemma listFeatures_objects:
  "objectLines (fs_features fs p) \<Longrightarrow>
     listFeatures codec fs p =
       Inr (filter (\<lambda>r. getProp r ''projectId'' = Some (JStr p)) (readJsonlFile codec (fs_features fs p)))"
  using no_null [OF read_objects, of "fs_features fs p" codec]
  by (simp add: listFeatures_def Let_def)

lemma stableProps_roundtrip:
  "stableProps codec kvs \<longleftrightarrow>
     restoreDates (parseDate codec) (toJSON (toISOString codec) (JObj kvs)) = JObj kvs"
  by (induction kvs) (auto simp: stableProps_def)

lemma stableProps_setProp:
  assumes "stableProps codec kvs"
    and "restoreField (parseDate codec) k (toJSON (toISOString codec) v)
           (restoreDates (parseDate codec) (toJSON (toISOString codec) v)) = v"
  shows "stableProps codec (setProp k v kvs)"
  using assms by (induction kvs) (auto simp: stableProps_def)

lemma getProp_setProp:
  "getProp (JObj (setProp k v kvs)) k' = (if k' = k then Some v else getProp (JObj kvs) k')"
  by (induction kvs) (auto simp: getProp_def)

lemma orElse_simps [simp]: "orElse (Some v) b = Some v" "orElse None b = b"
  by (simp_all add: orElse_def)

lemma optField_simps [simp]: "optField k None = []" "optField k (Some v) = [(k, v)]"
  by (simp_all add: optField_def)

lemma map_of_optField [simp]: "map_of (optField k x) k' = (if k' = k then x else None)"
  by (cases x) simp_all

lemma existing_progress:
  "getProp (featureObject f) ''progress'' = map_option progressObject (f_progress f)"
  by (cases "f_progress f") (simp_all add: getProp_def featureObject_def)

lemma plain_num [simp]: "plainValue (JNum n)"
  by (simp add: plainValue_def)

lemma plain_strings [simp]: "plainValue (stringArray xs)"
  by (simp add: plainValue_def)

lemma plain_empty [simp]: "plainValue (JArr [])"
  by (simp add: plainValue_def)

lemma truthy_progress [simp]: "truthy (Some (progressObject p))"
  by (simp add: truthy_def progressObject_def)

lemma progress_fields_plain:
  "getProp (progressObject p) k = Some v \<Longrightarrow> plainValue v"
  by (cases "pi_coveragePercentage p") (auto simp: getProp_def progressObject_def split: if_splits)

lemma default_fields_plain:
  "getProp defaultProgress k = Some v \<Longrightarrow> plainValue v"
  by (auto simp: getProp_def defaultProgress_def split: if_splits)

lemma mergeProgress_object:
  "\<exists>a b c d. mergeProgress (featureObject f) patch =
      JObj (optField ''testsWritten'' a @ optField ''testsPass'' b @
            optField ''implementationFiles'' c @ optField ''coveragePercentage'' d) \<and>
      (\<forall>v. a = Some v \<longrightarrow> plainValue v) \<and> (\<forall>v. b = Some v \<longrightarrow> plainValue v) \<and>
      (\<forall>v. c = Some v \<longrightarrow> plainValue v) \<and> (\<forall>v. d = Some v \<longrightarrow> plainValue v)"
proof -
  define ep where "ep = (case getProp (featureObject f) ''progress'' of
               Some v \<Rightarrow> if truthy (Some v) then v else defaultProgress
             | None \<Rightarrow> defaultProgress)"
  have ep: "\<And>k v. getProp ep k = Some v \<Longrightarrow> plainValue v"
    unfolding ep_def existing_progress
    by (cases "f_progress f") (auto dest: progress_fields_plain default_fields_plain)
  have o: "\<And>x k v. orElse (map_option JNum x) (getProp ep k) = Some v \<Longrightarrow> plainValue v"
    subgoal for x k v by (cases x) (auto dest: ep)
    done
  have o2: "\<And>x k v. orElse (map_option stringArray x) (getProp ep k) = Some v \<Longrightarrow> plainValue v"
    subgoal for x k v by (cases x) (auto dest: ep)
    done
  show ?thesis
    unfolding mergeProgress_def Let_def ep_def [symmetric]
    by (intro exI conjI) (rule refl, (blast dest: o o2)+)
qed

lemma mergeProgress_stable:
  "restoreDates rd (toJSON fmt (mergeProgress (featureObject f) patch)) = mergeProgress (featureObject f) patch"
proof -
  from mergeProgress_object [of f patch] obtain a b c d where
    m: "mergeProgress (featureObject f) patch =
      JObj (optField ''testsWritten'' a @ optField ''testsPass'' b @
            optField ''implementationFiles'' c @ optField ''coveragePercentage'' d)"
    and p: "\<And>v. a = Some v \<Longrightarrow> plainValue v" "\<And>v. b = Some v \<Longrightarrow> plainValue v"
      "\<And>v. c = Some v \<Longrightarrow> plainValue v" "\<And>v. d = Some v \<Longrightarrow> plainValue v"
    by blast
  have d: "''testsWritten'' \<notin> set dateFields" "''testsPass'' \<notin> set dateFields"
     "''implementationFiles'' \<notin> set dateFields" "''coveragePercentage'' \<notin> set dateFields"
    by (simp_all add: dateFields_def)
  show ?thesis unfolding m
    using p d
    by (cases a; cases b; cases c; cases d) (simp_all add: plainValue_def)
qed

lemma find_append:
  "find P (xs @ ys) = (case find P xs of None \<Rightarrow> find P ys | Some x \<Rightarrow> Some x)"
  by (induction xs) simp_all

lemma objectProps_feature: "JObj (objectProps (featureObject f)) = featureObject f"
  by (simp add: objectProps_def featureObject_def)

lemma updatedFeature_roundtrip:
  assumes "dateContract codec" "FeatureSchema (featureObject f)"
  shows "restoreDates (parseDate codec) (toJSON (toISOString codec)
           (updatedFeature now (featureObject f) params)) = updatedFeature now (featureObject f) params"
proof -
  from assms(1) have c: "\<And>t. parseDate codec (toISOString codec t) = Some t"
    "\<And>t. toISOString codec t \<noteq> []"
    by (auto simp: dateContract_def)
  have s0: "stableProps codec (objectProps (featureObject f))"
    unfolding stableProps_roundtrip objectProps_feature
    by (rule feature_roundtrip [OF assms])
  have s1: "stableProps codec (setProp ''status'' (JStr (statusName (up_status params)))
      (objectProps (featureObject f)))"
    by (rule stableProps_setProp [OF s0]) (simp add: restoreField_def dateFields_def)
  have s2: "stableProps codec (setProp ''updatedAt'' (JDate (Some now))
      (setProp ''status'' (JStr (statusName (up_status params))) (objectProps (featureObject f))))"
    by (rule stableProps_setProp [OF s1]) (simp add: dateFields_def c)
  show ?thesis
  proof (cases "up_progress params")
    case None
    with s2 show ?thesis
      by (simp add: updatedFeature_def Let_def stableProps_roundtrip)
  next
    case (Some patch)
    have "stableProps codec (setProp ''progress'' (mergeProgress (featureObject f) patch)
      (setProp ''updatedAt'' (JDate (Some now))
      (setProp ''status'' (JStr (statusName (up_status params))) (objectProps (featureObject f)))))"
      by (rule stableProps_setProp [OF s2])
         (subst restoreField_plain, simp add: dateFields_def, rule mergeProgress_stable)
    with Some show ?thesis
      by (simp add: updatedFeature_def Let_def stableProps_roundtrip)
  qed
qed

lemma updatedFeature_props:
  "getProp (updatedFeature now (featureObject f) params) ''id'' = Some (JStr (f_id f))"
  "getProp (updatedFeature now (featureObject f) params) ''projectId'' = Some (JStr (f_projectId f))"
  "getProp (updatedFeature now (featureObject f) params) ''status'' =
     Some (JStr (statusName (up_status params)))"
  by (cases "up_progress params";
      simp add: updatedFeature_def Let_def getProp_setProp objectProps_feature
        featureObject_id featureObject_projectId)+

lemma updatedFeature_not_null: "updatedFeature now v params \<noteq> JNull"
  by (cases "up_progress params") (simp_all add: updatedFeature_def Let_def)

lemma loadFeatureFrom_found:
  assumes "storeWellFormed fs"
    and "\<forall>p \<in> set ps. p \<noteq> q \<longrightarrow>
           (\<forall>r \<in> set (readJsonlFile codec (fs_features fs p)). getProp r ''id'' \<noteq> Some (JStr fid))"
    and "q \<in> set ps"
    and "listFeatures codec fs q = Inr xs"
    and "find (\<lambda>f. getProp f ''id'' = Some (JStr fid)) xs = Some x"
  shows "loadFeatureFrom codec fs fid ps = Inr (Some x)"
  using assms(2,3)
proof (induction ps)
  case Nil
  then show ?case by simp
next
  case (Cons p ps)
  show ?case
  proof (cases "p = q")
    case True
    with assms(4,5) show ?thesis by simp
  next
    case False
    from assms(1) have wf: "objectLines (fs_features fs p)"
      by (simp add: storeWellFormed_def)
    have "find (\<lambda>f. getProp f ''id'' = Some (JStr fid))
      (filter (\<lambda>r. getProp r ''projectId'' = Some (JStr p)) (readJsonlFile codec (fs_features fs p))) = None"
      using Cons.prems(1) False by (auto simp: find_None_iff)
    moreover have "loadFeatureFrom codec fs fid ps = Inr (Some x)"
      using Cons False by auto
    ultimately show ?thesis
      by (simp add: listFeatures_objects [OF wf])
  qed
qed

lemma toJSON_object: "isObject v \<Longrightarrow> isObject (toJSON fmt v)"
  by (cases v) (simp_all add: isObject_def)

lemma FeatureSchema_object: "FeatureSchema v \<Longrightarrow> isObject v"
  by (cases v) (simp_all add: FeatureSchema_def isObject_def)

lemma objectLines_append:
  "objectLines fl \<Longrightarrow> isObject v \<Longrightarrow> objectLines (appendToJsonlFile codec fl v)"
  using toJSON_object [of v "toISOString codec"]
  by (cases fl; cases "toJSON (toISOString codec) v")
     (simp_all add: objectLines_def appendToJsonlFile_def isObject_def)

lemma saveFeature_wellFormed:
  assumes "storeWellFormed fs" "saveFeature codec fs v = (r, fs')"
  shows "storeWellFormed fs'"
proof (cases "FeatureSchema v")
  case False
  with assms show ?thesis by (simp add: saveFeature_def)
next
  case True
  then obtain kvs where v: "v = JObj kvs" by (cases v) (simp_all add: FeatureSchema_def)
  from True v obtain p where p: "getProp v ''projectId'' = Some (JStr p)"
    by (cases "map_of kvs ''projectId''")
       (auto simp: FeatureSchema_def getProp_def isString_def split: jsval.splits)
  from assms(2) have "fs' = (ensureProjectDirectory fs p)\<lparr>fs_features := (fs_features fs)
        (p := appendToJsonlFile codec (fs_features fs p) v)\<rparr>"
    by (simp add: saveFeature_ok [OF True p])
  with assms(1) objectLines_append [OF _ FeatureSchema_object [OF True], of "fs_features fs p" codec]
  show ?thesis
    by (simp add: storeWellFormed_def)
qed

lemma emptyStore_wellFormed: "storeWellFormed emptyStore"
  by (simp add: storeWellFormed_def emptyStore_def objectLines_def)

lemma loginFeature_valid: "FeatureSchema (featureObject loginFeature)"
  by (simp add: FeatureSchema_def featureObject_def loginFeature_def isString_def
      isNonEmptyString_def isOneOf_def isStringArray_def isValidDate_def optional_def
      statusNames_def priorityNames_def statusName_def priorityName_def stringArray_def)

lemma listFeatures_emptyStore: "listFeatures codec emptyStore p = Inr []"
  by (simp add: listFeatures_def readJsonlFile_def emptyStore_def)

lemma loginStore_saved:
  "saveFeature epochCodec emptyStore (featureObject loginFeature) = (Inr (), loginStore)"
  using saveFeature_ok [OF loginFeature_valid featureObject_projectId, of epochCodec emptyStore]
  by (simp add: loginStore_def)

lemma loginStore_wellFormed: "storeWellFormed loginStore"
  by (rule saveFeature_wellFormed [OF emptyStore_wellFormed loginStore_saved])

lemma loginStore_read:
  "readJsonlFile epochCodec (fs_features loginStore p) =
     (if p = ''test-project-123'' then [featureObject loginFeature] else [])"
proof -
  have p: "f_projectId loginFeature = ''test-project-123''"
    by (simp add: loginFeature_def)
  have eq: "loginStore = (ensureProjectDirectory emptyStore ''test-project-123'')\<lparr>fs_features :=
      (fs_features emptyStore)(''test-project-123'' :=
         appendToJsonlFile epochCodec (fs_features emptyStore ''test-project-123'')
           (featureObject loginFeature))\<rparr>"
    using loginStore_saved
      saveFeature_ok [OF loginFeature_valid featureObject_projectId, of epochCodec emptyStore]
    by (simp add: p)
  have none: "readJsonlFile epochCodec (fs_features emptyStore q) = []" for q
    by (simp add: readJsonlFile_def emptyStore_def)
  show ?thesis
    unfolding eq
    using feature_roundtrip [OF epochCodec_contract loginFeature_valid]
    by (simp add: read_append none)
qed

lemma loginStore_listing:
  "listFeatures epochCodec loginStore ''test-project-123'' = Inr [featureObject loginFeature]"
  using listFeatures_objects [of loginStore "''test-project-123''" epochCodec] loginStore_wellFormed
  by (simp add: storeWellFormed_def loginStore_read featureObject_projectId)
     (simp add: loginFeature_def)

lemma map_fixed: "map f xs = xs \<longleftrightarrow> (\<forall>x \<in> set xs. f x = x)"
  by (induction xs) auto

lemma restorableField_roundtrip:
  assumes "\<And>t. parseDate codec (toISOString codec t) = Some t"
    and "\<And>t. toISOString codec t \<noteq> []"
    and "restorable v \<longleftrightarrow> restoreDates (parseDate codec) (toJSON (toISOString codec) v) = v"
  shows "restorableField k v (restorable v) \<longleftrightarrow>
     restoreField (parseDate codec) k (toJSON (toISOString codec) v)
       (restoreDates (parseDate codec) (toJSON (toISOString codec) v)) = v"
proof (cases v)
  case (JDate d)
  then show ?thesis
    by (cases d) (simp_all add: restorableField_def restoreField_def assms(1,2))
next
  case (JStr s)
  then show ?thesis
    by (simp add: restorableField_def restoreField_def)
next
  case (JArr vs)
  with assms(3) show ?thesis
    by (simp add: restorableField_def restoreField_def)
next
  case (JObj kvs)
  with assms(3) show ?thesis
    by (simp add: restorableField_def restoreField_def)
qed (simp_all add: restorableField_def restoreField_def)

lemma restorable_roundtrip:
  assumes "dateContract codec"
  shows "restorable v \<longleftrightarrow> restoreDates (parseDate codec) (toJSON (toISOString codec) v) = v"
proof -
  from assms have c: "\<And>t. parseDate codec (toISOString codec t) = Some t"
    "\<And>t. toISOString codec t \<noteq> []"
    by (auto simp: dateContract_def)
  show ?thesis
  proof (induction v)
    case (JArr vs)
    then show ?case
      by (simp add: map_fixed list_all_iff)
  next
    case (JObj kvs)
    have "restorableField k v (restorable v) \<longleftrightarrow>
        restoreField (parseDate codec) k (toJSON (toISOString codec) v)
          (restoreDates (parseDate codec) (toJSON (toISOString codec) v)) = v"
      if "(k, v) \<in> set kvs" for k v
      using that JObj by (intro restorableField_roundtrip c) auto
    then show ?case
      by (auto simp: map_fixed list_all_iff)
  next
    case (JDate d)
    then show ?case by (cases d) simp_all
  qed simp_all
qed

lemma featureObject_restorable:
  "FeatureSchema (featureObject f) \<Longrightarrow> restorable (featureObject f)"
  using restorable_roundtrip [OF epochCodec_contract, of "featureObject f"]
    feature_roundtrip [OF epochCodec_contract, of f]
  by simp

lemma loginFeature_props:
  "objectProps (featureObject loginFeature) =
     [(''id'', JStr ''feature-123''), (''projectId'', JStr ''test-project-123''),
      (''name'', JStr ''User Authentication''), (''description'', JStr ''Implement user login''),
      (''status'', JStr ''in_progress''), (''priority'', JStr ''high''),
      (''acceptanceCriteria'', JArr [JStr ''User can login'']),
      (''createdAt'', JDate (Some 1704103200000)), (''updatedAt'', JDate (Some 1704103200000))]"
  by (simp add: objectProps_def featureObject_def loginFeature_def statusName_def priorityName_def
      stringArray_def)

lemma reviewedFeature_valid: "FeatureSchema reviewedFeature"
  by (simp add: reviewedFeature_def loginFeature_props FeatureSchema_def isString_def
      isNonEmptyString_def isOneOf_def isStringArray_def isValidDate_def optional_def
      statusNames_def priorityNames_def)

lemma reviewedFeature_restorable: "restorable reviewedFeature"
  by (simp add: reviewedFeature_def loginFeature_props restorableField_def dateFields_def)

lemma reviewedFeature_projectId:
  "getProp reviewedFeature ''projectId'' = Some (JStr ''test-project-123'')"
  by (simp add: reviewedFeature_def loginFeature_props getProp_def)

lemma openEndedFeature_not_restorable:
  "FeatureSchema openEndedFeature \<and> \<not> restorable openEndedFeature"
  by (simp add: openEndedFeature_def loginFeature_props FeatureSchema_def isString_def
      isNonEmptyString_def isOneOf_def isStringArray_def isValidDate_def optional_def
      isNumberWhere_def statusNames_def priorityNames_def restorableField_def dateFields_def)

text \<open>
  Claim C4, as amended. Take a feature object that passes the schema and in which, at
  every depth, every date is valid and is the value of a property with one of the six date
  field names, no string other than the empty one is the value of such a property, and
  every number is finite. \<open>saveFeature\<close> accepts it, and \<open>listFeatures\<close> with its project
  id then returns what it returned before followed by a record equal to the saved one:
  every property, at every depth, has its value again, so every date is a date with the
  original time value in milliseconds. The parsable lines of the project's feature file
  are objects, and the date codec meets the library's contract.
\<close>

theorem C4_save_then_list:
  assumes "dateContract codec" and "objectLines (fs_features fs p)"
    and "FeatureSchema v" and "getProp v ''projectId'' = Some (JStr p)"
    and "restorable v"
  shows "\<exists>fs' before.
           saveFeature codec fs v = (Inr (), fs') \<and>
           listFeatures codec fs p = Inr before \<and>
           listFeatures codec fs' p = Inr (before @ [v])"
proof -
  let ?fs' = "(ensureProjectDirectory fs p)\<lparr>fs_features := (fs_features fs)
        (p := appendToJsonlFile codec (fs_features fs p) v)\<rparr>"
  let ?match = "\<lambda>r. getProp r ''projectId'' = Some (JStr p)"
  let ?before = "filter ?match (readJsonlFile codec (fs_features fs p))"
  have save: "saveFeature codec fs v = (Inr (), ?fs')"
    by (rule saveFeature_ok [OF assms(3,4)])
  have before: "listFeatures codec fs p = Inr ?before"
    by (rule listFeatures_objects [OF assms(2)])
  have rt: "restoreDates (parseDate codec) (toJSON (toISOString codec) v) = v"
    using restorable_roundtrip [OF assms(1), of v] assms(5) by simp
  have rd: "readJsonlFile codec (fs_features ?fs' p) =
      readJsonlFile codec (fs_features fs p) @ [v]"
    by (simp add: read_append rt)
  have nn: "JNull \<notin> set (readJsonlFile codec (fs_features fs p))"
    by (rule no_null [OF read_objects [OF assms(2)]])
  have obj: "v \<noteq> JNull"
    using FeatureSchema_object [OF assms(3)] by (auto simp: isObject_def)
  have after: "listFeatures codec ?fs' p = Inr (?before @ [v])"
    unfolding listFeatures_def Let_def rd using nn obj
    by (simp add: assms(4))
  from save before after show ?thesis by blast
qed

theorem C4_save_then_list_witness:
  "listFeatures epochCodec (snd (saveFeature epochCodec emptyStore reviewedFeature))
     ''test-project-123'' = Inr [reviewedFeature]"
proof -
  have "objectLines (fs_features emptyStore ''test-project-123'')"
    by (simp add: emptyStore_def objectLines_def)
  from C4_save_then_list [OF epochCodec_contract this reviewedFeature_valid
      reviewedFeature_projectId reviewedFeature_restorable]
  show ?thesis
    by (auto simp: listFeatures_emptyStore)
qed

text \<open>
  The claim as stated fails for a record that passes the schema and has a further property
  \<open>completedAt\<close> with the string \<open>soon\<close>: the schema ignores the property, the line
  keeps it, and reading the line back turns the string under the date field name into a
  date, here an invalid one.
\<close>

theorem C4_string_under_date_name_counterexample:
  "FeatureSchema dueSoonFeature \<and>
   getProp dueSoonFeature ''completedAt'' = Some (JStr ''soon'') \<and>
   listFeatures epochCodec (snd (saveFeature epochCodec emptyStore dueSoonFeature))
     ''test-project-123'' =
     Inr [JObj (objectProps (featureObject loginFeature) @ [(''completedAt'', JDate None)])]"
proof -
  have valid: "FeatureSchema dueSoonFeature"
    by (simp add: dueSoonFeature_def loginFeature_props FeatureSchema_def isString_def
        isNonEmptyString_def isOneOf_def isStringArray_def isValidDate_def optional_def
        statusNames_def priorityNames_def)
  have pid: "getProp dueSoonFeature ''projectId'' = Some (JStr ''test-project-123'')"
    by (simp add: dueSoonFeature_def loginFeature_props getProp_def)
  have soon: "readInt ''soon'' = None"
    by (simp add: readInt_def readDecimal_def isDigitIn_def digitValue_def)
  have "stableProps epochCodec (objectProps (featureObject loginFeature))"
    unfolding stableProps_roundtrip objectProps_feature
    by (rule feature_roundtrip [OF epochCodec_contract loginFeature_valid])
  then have kept: "map (\<lambda>x. (fst x, restoreField readInt (fst x) (toJSON showInt (snd x))
        (restoreDates readInt (toJSON showInt (snd x))))) (objectProps (featureObject loginFeature)) =
      objectProps (featureObject loginFeature)"
    by (simp add: stableProps_def map_fixed list_all_iff epochCodec_def prod_eq_iff)
  have rt: "restoreDates (parseDate epochCodec) (toJSON (toISOString epochCodec) dueSoonFeature) =
      JObj (objectProps (featureObject loginFeature) @ [(''completedAt'', JDate None)])"
    using kept
    by (simp add: dueSoonFeature_def epochCodec_def comp_def case_prod_beta dateFields_def soon)
  have "snd (saveFeature epochCodec emptyStore dueSoonFeature) =
      (ensureProjectDirectory emptyStore ''test-project-123'')\<lparr>fs_features :=
        (fs_features emptyStore)(''test-project-123'' :=
          appendToJsonlFile epochCodec (fs_features emptyStore ''test-project-123'') dueSoonFeature)\<rparr>"
    by (simp add: saveFeature_ok [OF valid pid])
  then have "listFeatures epochCodec (snd (saveFeature epochCodec emptyStore dueSoonFeature))
     ''test-project-123'' =
     Inr [JObj (objectProps (featureObject loginFeature) @ [(''completedAt'', JDate None)])]"
    by (simp add: listFeatures_def Let_def read_append rt)
       (simp add: readJsonlFile_def emptyStore_def getProp_def loginFeature_props)
  with valid show ?thesis
    by (simp add: dueSoonFeature_def getProp_def loginFeature_props)
qed

subsection \<open>Updating a feature that is not stored\<close>

lemma loadFeatureFrom_none:
  assumes "storeWellFormed fs"
    and "\<forall>p \<in> set ps. \<forall>r \<in> set (readJsonlFile codec (fs_features fs p)).
           getProp r ''id'' \<noteq> Some (JStr fid)"
  shows "loadFeatureFrom codec fs fid ps = Inr None"
  using assms(2)
proof (induction ps)
  case Nil
  then show ?case by simp
next
  case (Cons p ps)
  from assms(1) have wf: "objectLines (fs_features fs p)"
    by (simp add: storeWellFormed_def)
  have "find (\<lambda>f. getProp f ''id'' = Some (JStr fid))
      (filter (\<lambda>r. getProp r ''projectId'' = Some (JStr p)) (readJsonlFile codec (fs_features fs p))) = None"
    using Cons.prems by (auto simp: find_None_iff)
  with Cons show ?case
    by (simp add: listFeatures_objects [OF wf])
qed

lemma findById_none:
  "JNull \<notin> set xs \<Longrightarrow> \<forall>r \<in> set xs. getProp r ''id'' \<noteq> Some (JStr fid) \<Longrightarrow> findById fid xs = Inr None"
  by (induction xs) auto

lemma storageUpdate_none:
  assumes "storeWellFormed fs"
    and "\<forall>p \<in> set ps. \<forall>r \<in> set (readJsonlFile codec (fs_features fs p)).
           getProp r ''id'' \<noteq> Some (JStr fid)"
  shows "storageUpdateFeatureStatusIn codec now fs fid st ps = (Inr False, fs)"
  using assms(2)
proof (induction ps)
  case Nil
  then show ?case by simp
next
  case (Cons p ps)
  from assms(1) have wf: "objectLines (fs_features fs p)"
    by (simp add: storeWellFormed_def)
  have "findById fid (readJsonlFile codec (fs_features fs p)) = Inr None"
    using Cons.prems no_null [OF read_objects [OF wf]] by (intro findById_none) auto
  with Cons show ?case by simp
qed

text \<open>
  Claim C3. When no record of any project's features file carries the given id,
  \<open>FeatureManagementService.updateFeatureStatus\<close> fails with the error
  \<open>Feature not found: id\<close> and the file system afterwards is the one before the call, so
  no record with that id has been created. The storage-level \<open>updateFeatureStatus\<close>
  returns \<open>false\<close> and writes nothing either.
\<close>

theorem C3_update_missing_feature:
  assumes "storeWellFormed fs"
    and "\<forall>p \<in> set (listProjects fs). \<forall>r \<in> set (readJsonlFile codec (fs_features fs p)).
           getProp r ''id'' \<noteq> Some (JStr (up_featureId params))"
  shows "updateFeatureStatus codec now fs params = (Inl (FeatureNotFound (up_featureId params)), fs) \<and>
         errorMessage (FeatureNotFound (up_featureId params)) = ''Feature not found: '' @ up_featureId params \<and>
         storageUpdateFeatureStatus codec now fs (up_featureId params) (up_status params) = (Inr False, fs)"
  using loadFeatureFrom_none [OF assms] storageUpdate_none [OF assms]
  by (simp add: updateFeatureStatus_def loadFeature_def storageUpdateFeatureStatus_def errorMessage_def)

theorem C3_update_missing_feature_witness:
  "updateFeatureStatus epochCodec 0 loginStore missingParams =
     (Inl (FeatureNotFound ''non-existent-feature''), loginStore) \<and>
   storageUpdateFeatureStatus epochCodec 0 loginStore ''non-existent-feature'' IN_PROGRESS =
     (Inr False, loginStore)"
proof -
  have "\<forall>p \<in> set (listProjects loginStore).
      \<forall>r \<in> set (readJsonlFile epochCodec (fs_features loginStore p)).
        getProp r ''id'' \<noteq> Some (JStr (up_featureId missingParams))"
    by (simp add: loginStore_read featureObject_id) (simp add: loginFeature_def missingParams_def)
  from C3_update_missing_feature [OF loginStore_wellFormed this, of 0] show ?thesis
    by (simp add: missingParams_def)
qed

subsection \<open>Updating a stored feature\<close>

lemma completed_valid:
  "FeatureSchema (updatedFeature now (featureObject loginFeature) completeParams)"
  by (simp add: FeatureSchema_def featureObject_def loginFeature_def isString_def
      isNonEmptyString_def isOneOf_def isStringArray_def isValidDate_def optional_def
      statusNames_def priorityNames_def statusName_def priorityName_def stringArray_def
      updatedFeature_def completeParams_def objectProps_def mergeProgress_def getProp_def
      defaultProgress_def ProgressInfoSchema_def isNumberWhere_def Let_def)

lemma loadFeature_after_save:
  assumes contract: "dateContract codec"
    and wf: "storeWellFormed fs0"
    and valid: "FeatureSchema (featureObject f)"
    and fresh: "\<forall>p. \<forall>r \<in> set (readJsonlFile codec (fs_features fs0 p)).
                  getProp r ''id'' \<noteq> Some (JStr (f_id f))"
    and saved: "saveFeature codec fs0 (featureObject f) = (Inr (), fs1)"
  shows "loadFeature codec fs1 (f_id f) = Inr (Some (featureObject f))"
proof -
  let ?p = "f_projectId f"
  let ?F = "featureObject f"
  let ?isId = "\<lambda>r. getProp r ''id'' = Some (JStr (f_id f))"
  let ?before = "filter (\<lambda>r. getProp r ''projectId'' = Some (JStr ?p))
      (readJsonlFile codec (fs_features fs0 ?p))"
  have fs1: "fs1 = (ensureProjectDirectory fs0 ?p)\<lparr>fs_features := (fs_features fs0)
        (?p := appendToJsonlFile codec (fs_features fs0 ?p) ?F)\<rparr>"
    using saved by (simp add: saveFeature_ok [OF valid featureObject_projectId])
  have wf1: "storeWellFormed fs1"
    by (rule saveFeature_wellFormed [OF wf saved])
  have in1: "?p \<in> set (fs_projects fs1)"
    by (simp add: fs1 projects_after_ensure)
  have rd1: "readJsonlFile codec (fs_features fs1 ?p) =
      readJsonlFile codec (fs_features fs0 ?p) @ [?F]"
    by (simp add: fs1 read_append feature_roundtrip [OF contract valid])
  from wf1 have o1: "objectLines (fs_features fs1 ?p)"
    by (simp add: storeWellFormed_def)
  have list1: "listFeatures codec fs1 ?p = Inr (?before @ [?F])"
    by (simp add: listFeatures_objects [OF o1] rd1 featureObject_projectId)
  have "find ?isId ?before = None"
    using fresh by (auto simp: find_None_iff)
  then have found1: "find ?isId (?before @ [?F]) = Some ?F"
    by (simp add: find_append featureObject_id)
  have others1: "\<forall>q \<in> set (listProjects fs1). q \<noteq> ?p \<longrightarrow>
      (\<forall>r \<in> set (readJsonlFile codec (fs_features fs1 q)). \<not> ?isId r)"
    using fresh by (simp add: fs1)
  show ?thesis
    unfolding loadFeature_def
    by (rule loadFeatureFrom_found [OF wf1 others1 _ list1 found1]) (simp add: listProjects_def in1)
qed

text \<open>
  Claim C10. Let a valid feature be saved once, its id being new to the store. A successful
  \<open>FeatureManagementService.updateFeatureStatus\<close> then appends a second record with the same
  id to the features file of the project and leaves the first line in place: afterwards
  \<open>listFeatures\<close> of the project ends with the old record followed by the updated one, and
  \<open>loadFeature\<close> of the id still returns the first copy, with the status it was saved with.
\<close>

theorem C10_update_appends_duplicate:
  assumes contract: "dateContract codec"
    and wf: "storeWellFormed fs0"
    and valid: "FeatureSchema (featureObject f)"
    and fresh: "\<forall>p. \<forall>r \<in> set (readJsonlFile codec (fs_features fs0 p)).
                  getProp r ''id'' \<noteq> Some (JStr (f_id f))"
    and saved: "saveFeature codec fs0 (featureObject f) = (Inr (), fs1)"
    and fid: "up_featureId params = f_id f"
    and upd: "updateFeatureStatus codec now fs1 params = (Inr updated, fs2)"
  shows "\<exists>before.
           listFeatures codec fs1 (f_projectId f) = Inr (before @ [featureObject f]) \<and>
           listFeatures codec fs2 (f_projectId f) = Inr (before @ [featureObject f, updated]) \<and>
           fs_features fs2 (f_projectId f) =
             appendToJsonlFile codec (fs_features fs1 (f_projectId f)) updated \<and>
           getProp updated ''id'' = Some (JStr (f_id f)) \<and>
           getProp updated ''status'' = Some (JStr (statusName (up_status params))) \<and>
           loadFeature codec fs2 (f_id f) = Inr (Some (featureObject f)) \<and>
           getProp (featureObject f) ''status'' = Some (JStr (statusName (f_status f)))"
proof -
  let ?p = "f_projectId f"
  let ?F = "featureObject f"
  let ?isId = "\<lambda>r. getProp r ''id'' = Some (JStr (f_id f))"
  let ?match = "\<lambda>r. getProp r ''projectId'' = Some (JStr ?p)"
  let ?before = "filter ?match (readJsonlFile codec (fs_features fs0 ?p))"
  have fs1: "fs1 = (ensureProjectDirectory fs0 ?p)\<lparr>fs_features := (fs_features fs0)
        (?p := appendToJsonlFile codec (fs_features fs0 ?p) ?F)\<rparr>"
    using saved by (simp add: saveFeature_ok [OF valid featureObject_projectId])
  have wf1: "storeWellFormed fs1"
    by (rule saveFeature_wellFormed [OF wf saved])
  have in1: "?p \<in> set (fs_projects fs1)"
    by (simp add: fs1 projects_after_ensure)
  have rd1: "readJsonlFile codec (fs_features fs1 ?p) =
      readJsonlFile codec (fs_features fs0 ?p) @ [?F]"
    by (simp add: fs1 read_append feature_roundtrip [OF contract valid])
  have other1: "fs_features fs1 q = fs_features fs0 q" if "q \<noteq> ?p" for q
    using that by (simp add: fs1)
  from wf1 have o1: "objectLines (fs_features fs1 ?p)"
    by (simp add: storeWellFormed_def)
  have list1: "listFeatures codec fs1 ?p = Inr (?before @ [?F])"
    by (simp add: listFeatures_objects [OF o1] rd1 featureObject_projectId)
  have nomatch: "find ?isId ?before = None"
    using fresh by (auto simp: find_None_iff)
  have found1: "find ?isId (?before @ [?F]) = Some ?F"
    using nomatch by (simp add: find_append featureObject_id)
  have others1: "\<forall>q \<in> set (listProjects fs1). q \<noteq> ?p \<longrightarrow>
      (\<forall>r \<in> set (readJsonlFile codec (fs_features fs1 q)). \<not> ?isId r)"
    using fresh other1 by simp
  have load1: "loadFeature codec fs1 (f_id f) = Inr (Some ?F)"
    unfolding loadFeature_def
    by (rule loadFeatureFrom_found [OF wf1 others1 _ list1 found1]) (simp add: listProjects_def in1)
  let ?U = "updatedFeature now ?F params"
  from upd have u: "updated = ?U" and save2: "saveFeature codec fs1 ?U = (Inr (), fs2)"
    by (auto simp: updateFeatureStatus_def fid load1 Let_def split: prod.splits sum.splits)
  have validU: "FeatureSchema ?U"
    using save2 by (auto simp: saveFeature_def split: if_splits)
  have fs2: "fs2 = (ensureProjectDirectory fs1 ?p)\<lparr>fs_features := (fs_features fs1)
        (?p := appendToJsonlFile codec (fs_features fs1 ?p) ?U)\<rparr>"
    using save2 by (simp add: saveFeature_ok [OF validU updatedFeature_props(2)])
  have wf2: "storeWellFormed fs2"
    by (rule saveFeature_wellFormed [OF wf1 save2])
  have projects2: "fs_projects fs2 = fs_projects fs1"
    using in1 by (simp add: fs2 projects_after_ensure)
  have rd2: "readJsonlFile codec (fs_features fs2 ?p) =
      readJsonlFile codec (fs_features fs0 ?p) @ [?F, ?U]"
    by (simp add: fs2 read_append rd1 updatedFeature_roundtrip [OF contract valid])
  from wf2 have o2: "objectLines (fs_features fs2 ?p)"
    by (simp add: storeWellFormed_def)
  have list2: "listFeatures codec fs2 ?p = Inr (?before @ [?F, ?U])"
    by (simp add: listFeatures_objects [OF o2] rd2 featureObject_projectId updatedFeature_props)
  have found2: "find ?isId (?before @ [?F, ?U]) = Some ?F"
    using nomatch by (simp add: find_append featureObject_id)
  have others2: "\<forall>q \<in> set (listProjects fs2). q \<noteq> ?p \<longrightarrow>
      (\<forall>r \<in> set (readJsonlFile codec (fs_features fs2 q)). \<not> ?isId r)"
    using fresh other1 by (simp add: fs2)
  have load2: "loadFeature codec fs2 (f_id f) = Inr (Some ?F)"
    unfolding loadFeature_def
    by (rule loadFeatureFrom_found [OF wf2 others2 _ list2 found2])
       (simp add: listProjects_def projects2 in1)
  have appended: "fs_features fs2 ?p = appendToJsonlFile codec (fs_features fs1 ?p) updated"
    by (simp add: fs2 u)
  have st: "getProp ?F ''status'' = Some (JStr (statusName (f_status f)))"
    by (simp add: getProp_def featureObject_def)
  from list1 list2 appended load2 st updatedFeature_props(1,3) [of now f params]
  show ?thesis
    unfolding u by blast
qed

theorem C10_update_appends_duplicate_witness:
  "listFeatures epochCodec
     (snd (updateFeatureStatus epochCodec 1704103260000 loginStore completeParams))
     ''test-project-123'' =
     Inr [featureObject loginFeature,
          updatedFeature 1704103260000 (featureObject loginFeature) completeParams] \<and>
   loadFeature epochCodec
     (snd (updateFeatureStatus epochCodec 1704103260000 loginStore completeParams))
     ''feature-123'' = Inr (Some (featureObject loginFeature)) \<and>
   getProp (featureObject loginFeature) ''status'' = Some (JStr ''in_progress'') \<and>
   getProp (updatedFeature 1704103260000 (featureObject loginFeature) completeParams) ''status'' =
     Some (JStr ''completed'')"
proof -
  let ?U = "updatedFeature 1704103260000 (featureObject loginFeature) completeParams"
  let ?r = "updateFeatureStatus epochCodec 1704103260000 loginStore completeParams"
  have fresh: "\<forall>p. \<forall>r \<in> set (readJsonlFile epochCodec (fs_features emptyStore p)).
      getProp r ''id'' \<noteq> Some (JStr (f_id loginFeature))"
    by (simp add: readJsonlFile_def emptyStore_def)
  have fid: "up_featureId completeParams = f_id loginFeature"
    by (simp add: completeParams_def loginFeature_def)
  have load: "loadFeature epochCodec loginStore (up_featureId completeParams) =
      Inr (Some (featureObject loginFeature))"
    unfolding fid
    by (rule loadFeature_after_save [OF epochCodec_contract emptyStore_wellFormed
          loginFeature_valid fresh loginStore_saved])
  have "fst ?r = Inr ?U"
    by (simp add: updateFeatureStatus_def load Let_def
        saveFeature_ok [OF completed_valid updatedFeature_props(2)])
  then have upd: "?r = (Inr ?U, snd ?r)"
    by (metis prod.collapse)
  from C10_update_appends_duplicate [OF epochCodec_contract emptyStore_wellFormed
      loginFeature_valid fresh loginStore_saved fid upd]
  obtain before where
    l1: "listFeatures epochCodec loginStore (f_projectId loginFeature) =
           Inr (before @ [featureObject loginFeature])" and
    l2: "listFeatures epochCodec (snd ?r) (f_projectId loginFeature) =
           Inr (before @ [featureObject loginFeature, ?U])" and
    st: "getProp ?U ''status'' = Some (JStr (statusName (up_status completeParams)))" and
    ld: "loadFeature epochCodec (snd ?r) (f_id loginFeature) = Inr (Some (featureObject loginFeature))" and
    old: "getProp (featureObject loginFeature) ''status'' =
           Some (JStr (statusName (f_status loginFeature)))"
    by blast
  have p: "f_projectId loginFeature = ''test-project-123''" "f_id loginFeature = ''feature-123''"
    "statusName (f_status loginFeature) = ''in_progress''"
    "statusName (up_status completeParams) = ''completed''"
    by (simp_all add: loginFeature_def completeParams_def statusName_def)
  from l1 have "before = []"
    using loginStore_listing by (simp add: p)
  with l2 st ld old show ?thesis
    by (simp add: p)
qed

subsection \<open>The default workflow of the tdd tool\<close>

lemma andThen_ok: "step = (Inr x, st1) \<Longrightarrow> andThen step next = next x st1"
  by (simp add: andThen_def)

lemma findById_objects:
  "list_all isObject xs \<Longrightarrow>
     findById sid xs = Inr None \<or>
     (\<exists>b s a. findById sid xs = Inr (Some (b, s, a)) \<and> list_all isObject b \<and> list_all isObject a)"
proof (induction xs)
  case Nil
  then show ?case by simp
next
  case (Cons x xs)
  then have xs: "list_all isObject xs" and xo: "isObject x"
    by simp_all
  from xo have x: "x \<noteq> JNull"
    by (auto simp: isObject_def)
  from Cons.IH [OF xs] show ?case
    using x xo xs by auto
qed

lemma objectLines_write:
  "list_all isObject items \<Longrightarrow> objectLines (writeJsonlFile codec items)"
proof -
  assume a: "list_all isObject items"
  have "\<And>v. isObject v \<Longrightarrow> (case toJSON (toISOString codec) v of JObj kvs \<Rightarrow> True | _ \<Rightarrow> False)"
    using toJSON_object [of _ "toISOString codec"] by (simp add: isObject_def)
  with a show ?thesis
    by (simp add: objectLines_def writeJsonlFile_def list_all_iff)
qed

lemma updateTDDSessionStageIn_ok:
  "sessionFilesWellFormed fs \<Longrightarrow>
     \<exists>b fs'. updateTDDSessionStageIn codec now fs sid stage ps = (Inr b, fs') \<and>
       sessionFilesWellFormed fs'"
proof (induction ps)
  case Nil
  then show ?case by auto
next
  case (Cons p ps)
  from Cons.prems have "objectLines (fs_sessions fs p)"
    by (simp add: sessionFilesWellFormed_def)
  from findById_objects [OF read_objects [OF this], of sid codec]
  show ?case
  proof
    assume "findById sid (readJsonlFile codec (fs_sessions fs p)) = Inr None"
    with Cons show ?thesis by simp
  next
    assume "\<exists>b s a. findById sid (readJsonlFile codec (fs_sessions fs p)) = Inr (Some (b, s, a)) \<and>
        list_all isObject b \<and> list_all isObject a"
    then obtain b s a where f: "findById sid (readJsonlFile codec (fs_sessions fs p)) = Inr (Some (b, s, a))"
      and o: "list_all isObject b" "list_all isObject a" by blast
    let ?s = "JObj (setProp ''updatedAt'' (JDate (Some now))
                (setProp ''stage'' (JStr (stageName stage)) (objectProps s)))"
    have "list_all isObject (b @ [?s] @ a)"
      using o by (simp add: isObject_def)
    from objectLines_write [OF this, of codec] Cons.prems f show ?thesis
      by (auto simp: sessionFilesWellFormed_def Let_def)
  qed
qed

lemma updateSessionStage_ok:
  assumes "sessionFilesWellFormed (hs_store st)"
  shows "\<exists>st'. updateSessionStage codec now stage st = (Inr (), st') \<and>
           sessionFilesWellFormed (hs_store st') \<and> hs_locale st' = hs_locale st"
proof (cases "currentSessionId st")
  case None
  with assms show ?thesis by (simp add: updateSessionStage_def)
next
  case (Some sid)
  obtain b fs' where
    u: "updateTDDSessionStage codec now (hs_store st) sid stage = (Inr b, fs')" and
    wf: "sessionFilesWellFormed fs'"
    using updateTDDSessionStageIn_ok [OF assms] unfolding updateTDDSessionStage_def by blast
  with Some assms show ?thesis by (simp add: updateSessionStage_def)
qed

lemma autoSession_valid:
  "TDDSessionSchema (JObj [(''id'', JStr sid), (''featureId'', JStr fid),
      (''projectId'', JStr ''auto-project''), (''developer'', JStr dev),
      (''stage'', JStr (stageName STAGE_RED)), (''startedAt'', JDate (Some now)),
      (''updatedAt'', JDate (Some now)), (''notes'', JStr ''Auto-created session''),
      (''cycleCount'', JNum 0)])"
  by (simp add: TDDSessionSchema_def isString_def isOneOf_def isValidDate_def optional_def
      isNumberWhere_def stageNames_def stageName_def)

lemma ensureActiveSession_ok:
  assumes "sessionFilesWellFormed (hs_store st)"
    and "getProp args ''developer'' = None" and "getProp args ''featureId'' = None"
  shows "\<exists>st'. ensureActiveSession codec now args st = (Inr (), st') \<and>
           sessionFilesWellFormed (hs_store st') \<and> hs_locale st' = hs_locale st"
proof (cases "present (currentSessionId st)")
  case True
  with assms show ?thesis by (simp add: ensureActiveSession_def)
next
  case False
  let ?session = "JObj [(''id'', JStr (''session-'' @ showInt now)),
      (''featureId'', JStr ''auto-feature''),
      (''projectId'', JStr ''auto-project''),
      (''developer'', JStr ''unknown''),
      (''stage'', JStr (stageName STAGE_RED)), (''startedAt'', JDate (Some now)),
      (''updatedAt'', JDate (Some now)), (''notes'', JStr ''Auto-created session''),
      (''cycleCount'', JNum 0)]"
  have o: "objectLines (appendToJsonlFile codec (fs_sessions (hs_store st) ''auto-project'') ?session)"
    using assms(1) by (intro objectLines_append) (simp_all add: sessionFilesWellFormed_def isObject_def)
  have "saveTDDSession codec (hs_store st) ?session =
      (Inr (), (ensureProjectDirectory (hs_store st) ''auto-project'')\<lparr>fs_sessions :=
         (fs_sessions (hs_store st))(''auto-project'' :=
            appendToJsonlFile codec (fs_sessions (hs_store st) ''auto-project'') ?session)\<rparr>)"
    using autoSession_valid by (simp add: saveTDDSession_def getProp_def Let_def)
  with False assms o show ?thesis
    by (simp add: ensureActiveSession_def Let_def sessionFilesWellFormed_def valueOr_def)
qed

lemma fullWorkflowText_parts:
  "fullWorkflowText =
     (zhWorkflowDone @ newline @ okMark @ '' '') @ zhGenerateTests @
     (newline @ okMark @ '' '') @ zhMinimalImplementation @
     (newline @ okMark @ '' '' @ zhRunTests @ newline @ okMark @ '' '' @ zhAnalyzeCoverage @
      newline @ okMark @ '' '' @ zhSuggestRefactoring)"
  by (simp add: fullWorkflowText_def)

lemma numeric_developer_rejected:
  "ct_isError (fst (callTool epochCodec decimalConversion 0 freshHandler ''tdd'' numericDeveloper))"
  by code_simp

text \<open>
  Claim C1, as amended. For every call of the \<open>tdd\<close> tool whose arguments are an object
  with the one property \<open>requirements\<close>, a non-empty string, on a store in which every
  parsable line of a session file is a JSON object, \<open>callTool\<close> returns a result without
  the error flag; its text is the fixed workflow report, in which the Chinese for "generate
  test cases" is followed, later in the text, by the Chinese for "generate the minimal
  implementation".
\<close>

theorem C1_full_workflow:
  assumes "sessionFilesWellFormed (hs_store st)" and "r \<noteq> []"
  shows "(\<exists>st'. callTool codec conv now st ''tdd'' (onlyRequirements r) =
            (\<lparr>ct_isError = False, ct_text = fullWorkflowText\<rparr>, st')) \<and>
         (\<exists>pre mid post.
            fullWorkflowText = pre @ zhGenerateTests @ mid @ zhMinimalImplementation @ post)"
proof
  let ?a = "JObj [(''requirements'', JStr r)]"
  have props: "getProp ?a ''developer'' = None" "getProp ?a ''featureId'' = None"
    "getProp ?a ''command'' = None" "getProp ?a ''requirements'' = Some (JStr r)"
    by (simp_all add: getProp_def)
  obtain st1 where e: "ensureActiveSession codec now ?a st = (Inr (), st1)"
    and w1: "sessionFilesWellFormed (hs_store st1)"
    using ensureActiveSession_ok [OF assms(1) props(1,2)] by blast
  obtain st2 where s2: "updateSessionStage codec now STAGE_RED st1 = (Inr (), st2)"
    and w2: "sessionFilesWellFormed (hs_store st2)"
    using updateSessionStage_ok [OF w1] by blast
  obtain st3 where s3: "updateSessionStage codec now STAGE_RED st2 = (Inr (), st3)"
    and w3: "sessionFilesWellFormed (hs_store st3)"
    using updateSessionStage_ok [OF w2] by blast
  obtain st4 where s4: "updateSessionStage codec now STAGE_GREEN st3 = (Inr (), st4)"
    and w4: "sessionFilesWellFormed (hs_store st4)"
    using updateSessionStage_ok [OF w3] by blast
  obtain st5 where s5: "updateSessionStage codec now STAGE_REFACTOR st4 = (Inr (), st5)"
    using updateSessionStage_ok [OF w4] by blast
  have full: "executeFullTDDWorkflow codec now st2 = (Inr (createSuccessResult fullWorkflowText), st4)"
    by (simp add: executeFullTDDWorkflow_def andThen_ok [OF s3] andThen_ok [OF s4])
  have "handleTDDTool codec conv now (onlyRequirements r) st =
      (Inr (createSuccessResult fullWorkflowText), st5)"
    using assms(2) props(3,4)
    by (simp add: handleTDDTool_def onlyRequirements_def andThen_ok [OF e] andThen_ok [OF s2]
        andThen_ok [OF full] andThen_ok [OF s5] truthy_def)
  then show "\<exists>st'. callTool codec conv now st ''tdd'' (onlyRequirements r) =
      (\<lparr>ct_isError = False, ct_text = fullWorkflowText\<rparr>, st')"
    by (simp add: callTool_def createSuccessResult_def)
  show "\<exists>pre mid post.
      fullWorkflowText = pre @ zhGenerateTests @ mid @ zhMinimalImplementation @ post"
    using fullWorkflowText_parts by blast
qed

theorem C1_full_workflow_witness:
  "fst (callTool epochCodec decimalConversion 0 freshHandler ''tdd'' (onlyRequirements ''x'')) =
     \<lparr>ct_isError = False, ct_text = fullWorkflowText\<rparr>"
proof -
  have "sessionFilesWellFormed (hs_store freshHandler)"
    by (simp add: freshHandler_def emptyStore_def sessionFilesWellFormed_def objectLines_def)
  from C1_full_workflow [OF this, of "''x''" epochCodec decimalConversion 0]
  show ?thesis
    by auto
qed

text \<open>
  The claim as stated fails for the empty requirements string: it is falsy, so the guard
  that rejects a call with neither command nor requirements answers with an error result.
\<close>

theorem C1_empty_requirements_counterexample:
  "onlyRequirements '''' = Some (JObj [(''requirements'', JStr '''')]) \<and>
   fst (callTool epochCodec decimalConversion 0 freshHandler ''tdd'' (onlyRequirements '''')) =
     \<lparr>ct_isError = True, ct_text = ''Input parameter validation failed''\<rparr>"
  by code_simp

end
